theory Spec2Isabelle
  imports Complex_Main
begin

section \<open>JavaScript numbers\<close>

text \<open>
  A JavaScript \<^verbatim>\<open>number\<close> is modelled by \<open>jsnum\<close>: a finite value, carried as an exact
  rational, or one of the three non-finite values. An operation on finite numbers
  overflows as it does on IEEE doubles: a result whose magnitude reaches
  \<open>2 ^ 1024 - 2 ^ 970\<close>, half a unit in the last place above the largest double, is an
  infinity. The rounding of a finite result to the nearest double and the sign of zero are
  not modelled. On whole numbers of cents up to \<open>2 ^ 53\<close> cents the amounts of the model
  are the amounts of the code; what is proved below is stated for that range, or holds of
  either rounding. Amounts that come back from the store travel as JSON, which has no
  non-finite number, so rows read from the store carry plain rationals; numbers parsed
  from the text of a form field (\<^verbatim>\<open>Number(str)\<close>) are \<open>jsnum\<close>s.
\<close>

datatype jsnum = Fin rat | PInf | NInf | NaN

definition double_limit :: rat where
  "double_limit = 2 ^ 1024 - 2 ^ 970"

text \<open>The result of an operation on finite numbers whose exact value is \<open>x\<close>.\<close>

definition js_num :: "rat \<Rightarrow> jsnum" where
  "js_num x =
     (if double_limit \<le> x then PInf else if x \<le> - double_limit then NInf else Fin x)"

fun js_neg :: "jsnum \<Rightarrow> jsnum" where
  "js_neg (Fin a) = Fin (- a)"
| "js_neg PInf = NInf"
| "js_neg NInf = PInf"
| "js_neg NaN = NaN"

fun js_add :: "jsnum \<Rightarrow> jsnum \<Rightarrow> jsnum" where
  "js_add NaN _ = NaN"
| "js_add _ NaN = NaN"
| "js_add (Fin a) (Fin b) = js_num (a + b)"
| "js_add PInf NInf = NaN"
| "js_add NInf PInf = NaN"
| "js_add PInf _ = PInf"
| "js_add NInf _ = NInf"
| "js_add (Fin _) PInf = PInf"
| "js_add (Fin _) NInf = NInf"

definition js_sub :: "jsnum \<Rightarrow> jsnum \<Rightarrow> jsnum" where
  "js_sub a b = js_add a (js_neg b)"

text \<open>The sign of a number: \<open>1\<close>, \<open>-1\<close>, or \<open>0\<close> for zero (NaN is handled before it is asked).\<close>

fun js_sign :: "jsnum \<Rightarrow> int" where
  "js_sign (Fin a) = (if 0 < a then 1 else if a < 0 then - 1 else 0)"
| "js_sign PInf = 1"
| "js_sign NInf = - 1"
| "js_sign NaN = 0"

definition js_inf :: "int \<Rightarrow> jsnum" where
  "js_inf s = (if 0 < s then PInf else if s < 0 then NInf else NaN)"

fun js_mul :: "jsnum \<Rightarrow> jsnum \<Rightarrow> jsnum" where
  "js_mul NaN _ = NaN"
| "js_mul _ NaN = NaN"
| "js_mul (Fin a) (Fin b) = js_num (a * b)"
| "js_mul a b = js_inf (js_sign a * js_sign b)"

fun js_div :: "jsnum \<Rightarrow> jsnum \<Rightarrow> jsnum" where
  "js_div NaN _ = NaN"
| "js_div _ NaN = NaN"
| "js_div (Fin a) (Fin b) = (if b = 0 then js_inf (js_sign (Fin a)) else js_num (a / b))"
| "js_div (Fin _) _ = Fin 0"
| "js_div a (Fin b) = js_inf (js_sign a * (if b < 0 then - 1 else 1))"
| "js_div _ _ = NaN"

text \<open>\<^verbatim>\<open>Math.round\<close>: the nearest integer, a tie going up.\<close>

definition round_half_up :: "rat \<Rightarrow> int" where
  "round_half_up x = \<lfloor>x + 1 / 2\<rfloor>"

fun js_round :: "jsnum \<Rightarrow> jsnum" where
  "js_round (Fin a) = Fin (of_int (round_half_up a))"
| "js_round n = n"

fun isNaN :: "jsnum \<Rightarrow> bool" where
  "isNaN NaN = True"
| "isNaN _ = False"

fun isFinite :: "jsnum \<Rightarrow> bool" where
  "isFinite (Fin _) = True"
| "isFinite _ = False"

text \<open>\<^verbatim>\<open>n <= 0\<close>; every comparison with NaN is false.\<close>

fun js_le_zero :: "jsnum \<Rightarrow> bool" where
  "js_le_zero (Fin a) = (a \<le> 0)"
| "js_le_zero NInf = True"
| "js_le_zero _ = False"

text \<open>\<^verbatim>\<open>xs.reduce((s, c) => s + c, 0)\<close>\<close>

definition js_sum :: "jsnum list \<Rightarrow> jsnum" where
  "js_sum xs = foldl js_add (Fin 0) xs"

section \<open>Money helpers\<close>

text \<open>
  \<^verbatim>\<open>clamp2(n) = Math.round(n * 100) / 100\<close>, \<^verbatim>\<open>toCents(n) = Math.round(n * 100)\<close>,
  \<^verbatim>\<open>centsToNumber(c) = Math.round(c) / 100\<close>. \<open>clamp2\<close> is the function on the finite
  amounts of the ledger, \<open>clamp2N\<close> the same function on any number. \<open>clamp2\<close> rounds
  the exact product: on a whole number of cents it returns its argument, as the code
  does. On other amounts the code rounds the product of doubles, which can fall on the
  other side of a tie (the code gives 1.00 for 1.005); nothing is claimed below of
  \<open>clamp2\<close> on such amounts beyond what holds of the code too.
\<close>

definition clamp2 :: "rat \<Rightarrow> rat" where
  "clamp2 n = of_int (round_half_up (n * 100)) / 100"

definition clamp2N :: "jsnum \<Rightarrow> jsnum" where
  "clamp2N n = js_div (js_round (js_mul n (Fin 100))) (Fin 100)"

definition toCents :: "jsnum \<Rightarrow> jsnum" where
  "toCents n = js_round (js_mul n (Fin 100))"

definition centsToNumber :: "jsnum \<Rightarrow> jsnum" where
  "centsToNumber cents = js_div (js_round cents) (Fin 100)"

section \<open>Allocation builder\<close>

definition ALLOCATIONS :: "(string \<times> rat) list" where
  "ALLOCATIONS =
     [(''save'', 15 / 100),
      (''wants'', 15 / 100),
      (''emergency'', 1 / 10),
      (''student loans'', 25 / 100),
      (''expenses'', 3 / 10)]"

definition BUCKETS :: "string list" where
  "BUCKETS = map fst ALLOCATIONS"

text \<open>
  A JavaScript \<^verbatim>\<open>Map\<close> keeps its keys in insertion order and \<^verbatim>\<open>set\<close> on a key that is
  present replaces the value in place: an association list.
\<close>

fun map_set :: "'k \<Rightarrow> 'v \<Rightarrow> ('k \<times> 'v) list \<Rightarrow> ('k \<times> 'v) list" where
  "map_set k v [] = [(k, v)]"
| "map_set k v ((k', v') # m) = (if k' = k then (k, v) # m else (k', v') # map_set k v m)"

text \<open>\<^verbatim>\<open>m.get(k) ?? d\<close>\<close>

definition map_get_or :: "('k \<times> 'v) list \<Rightarrow> 'k \<Rightarrow> 'v \<Rightarrow> 'v" where
  "map_get_or m k d = (case map_of m k of None \<Rightarrow> d | Some v \<Rightarrow> v)"

record budget_insert =
  bi_user_id :: string
  bi_week_start :: string
  bi_category :: string
  bi_amount :: jsnum

definition buildBudgetInsertsExactTotal :: "string \<Rightarrow> string \<Rightarrow> jsnum \<Rightarrow> budget_insert list" where
  "buildBudgetInsertsExactTotal userId weekStart income =
     (let incomeCents = toCents income;
          centsByBucket =
            fold (\<lambda>a m. map_set (fst a) (js_round (js_mul incomeCents (Fin (snd a)))) m)
              ALLOCATIONS [];
          sumCents = js_sum (map snd centsByBucket);
          leftover = js_sub incomeCents sumCents;
          centsByBucket' =
            map_set ''expenses''
              (js_add (map_get_or centsByBucket ''expenses'' (Fin 0)) leftover) centsByBucket
      in map (\<lambda>bucket.
            \<lparr>bi_user_id = userId, bi_week_start = weekStart, bi_category = bucket,
             bi_amount = centsToNumber (map_get_or centsByBucket' bucket (Fin 0))\<rparr>)
          BUCKETS)"

text \<open>The cents of the five buckets, as integers, for an income of \<open>c\<close> cents.\<close>

definition bucket_cents :: "int \<Rightarrow> int list" where
  "bucket_cents c =
     (let a = round_half_up (of_int c * (15 / 100));
          e = round_half_up (of_int c * (1 / 10));
          s = round_half_up (of_int c * (25 / 100))
      in [a, a, e, s, c - (a + a + e + s)])"

section \<open>Strings\<close>

text \<open>
  A string is a list of characters, a character being a code unit below 256 (Latin-1);
  text with other code units is outside the model. In this range \<open>trim\<close> removes what
  \<^verbatim>\<open>String.prototype.trim\<close> removes, the characters 9 to 13, the space and the no-break
  space, and \<open>toLowerCase\<close> lowers the letters A to Z and the accented capitals 192 to
  222 other than the multiplication sign 215.
\<close>

definition is_space :: "char \<Rightarrow> bool" where
  "is_space c =
     (c \<in> set [CHR 0x09, CHR 0x0A, CHR 0x0B, CHR 0x0C, CHR 0x0D, CHR '' '', CHR 0xA0])"

definition trim :: "string \<Rightarrow> string" where
  "trim s = rev (dropWhile is_space (rev (dropWhile is_space s)))"

definition is_upper :: "char \<Rightarrow> bool" where
  "is_upper c =
     (65 \<le> (of_char c :: nat) \<and> (of_char c :: nat) \<le> 90
      \<or> 192 \<le> (of_char c :: nat) \<and> (of_char c :: nat) \<le> 222 \<and> (of_char c :: nat) \<noteq> 215)"

text \<open>An upper-case letter and its lower-case letter differ in the bit of value 32.\<close>

fun lower_char :: "char \<Rightarrow> char" where
  "lower_char (Char b0 b1 b2 b3 b4 b5 b6 b7) =
     (if is_upper (Char b0 b1 b2 b3 b4 b5 b6 b7) then Char b0 b1 b2 b3 b4 True b6 b7
      else Char b0 b1 b2 b3 b4 b5 b6 b7)"

definition toLowerCase :: "string \<Rightarrow> string" where
  "toLowerCase s = map lower_char s"

definition startsWith :: "string \<Rightarrow> string \<Rightarrow> bool" where
  "startsWith s p = (take (length p) s = p)"

fun js_includes :: "string \<Rightarrow> string \<Rightarrow> bool" where
  "js_includes [] p = (p = [])"
| "js_includes (c # cs) p = (startsWith (c # cs) p \<or> js_includes cs p)"

text \<open>\<^verbatim>\<open>s.indexOf(p)\<close>: the first position of \<open>p\<close> in \<open>s\<close>, \<open>None\<close> for \<^verbatim>\<open>-1\<close>.\<close>

fun indexOf :: "string \<Rightarrow> string \<Rightarrow> nat option" where
  "indexOf [] p = (if p = [] then Some 0 else None)"
| "indexOf (c # cs) p =
     (if startsWith (c # cs) p then Some 0 else map_option Suc (indexOf cs p))"

subsection \<open>Reading a number from text\<close>

text \<open>
  \<^verbatim>\<open>Number(str)\<close>: white space around either a number with a radix prefix (\<^verbatim>\<open>0x\<close>, \<^verbatim>\<open>0o\<close>,
  \<^verbatim>\<open>0b\<close>), or an optional sign and either \<^verbatim>\<open>Infinity\<close> or decimal digits with an optional
  fraction and an optional exponent. The empty text reads as 0 and any other text as NaN.
  A value beyond the largest double reads as an infinity and one too small to be a double
  as 0; otherwise the text is read as its exact value, not as the nearest double. The
  operations below take the reader as a parameter \<open>num\<close>, so what is proved of them holds
  for every reader; \<open>Number_of\<close> serves the concrete runs.
\<close>

definition is_digit :: "char \<Rightarrow> bool" where
  "is_digit c = (48 \<le> (of_char c :: nat) \<and> (of_char c :: nat) \<le> 57)"

definition digits_value :: "string \<Rightarrow> nat" where
  "digits_value ds = foldl (\<lambda>acc c. acc * 10 + (of_char c - 48)) 0 ds"

text \<open>The exponent part: nothing, or \<^verbatim>\<open>e\<close> or \<^verbatim>\<open>E\<close>, an optional sign and digits.\<close>

definition parse_digits :: "string \<Rightarrow> int option" where
  "parse_digits ds =
     (if ds \<noteq> [] \<and> list_all is_digit ds then Some (int (digits_value ds)) else None)"

definition parse_exponent :: "string \<Rightarrow> int option" where
  "parse_exponent s =
     (case s of
        [] \<Rightarrow> Some 0
      | c # t \<Rightarrow>
          if c = CHR ''e'' \<or> c = CHR ''E'' then
            (case t of
               [] \<Rightarrow> None
             | d # ds \<Rightarrow>
                 if d = CHR ''+'' then parse_digits ds
                 else if d = CHR ''-'' then map_option uminus (parse_digits ds)
                 else parse_digits (d # ds))
          else None)"

definition pow10 :: "int \<Rightarrow> rat" where
  "pow10 ex = (if 0 \<le> ex then 10 ^ nat ex else 1 / 10 ^ nat (- ex))"

text \<open>
  The number that a text with the exact value \<open>v\<close>, which is not negative, reads as: 0 up
  to half the smallest double, an infinity from \<open>double_limit\<close> on.
\<close>

definition read_value :: "rat \<Rightarrow> jsnum" where
  "read_value v = (if v \<le> 1 / 2 ^ 1075 then Fin 0 else js_num v)"

definition parse_unsigned :: "string \<Rightarrow> jsnum" where
  "parse_unsigned s =
     (if s = ''Infinity'' then PInf
      else
        let ip = takeWhile is_digit s;
            r1 = dropWhile is_digit s;
            dotted = (r1 \<noteq> [] \<and> hd r1 = CHR ''.'');
            fp = (if dotted then takeWhile is_digit (tl r1) else []);
            r2 = (if dotted then dropWhile is_digit (tl r1) else r1)
        in if ip = [] \<and> fp = [] then NaN
           else case parse_exponent r2 of
                  None \<Rightarrow> NaN
                | Some ex \<Rightarrow>
                    read_value ((of_nat (digits_value ip)
                                 + of_nat (digits_value fp) / 10 ^ length fp) * pow10 ex))"

text \<open>A digit of a number with a radix prefix: its value, if it is below the radix.\<close>

definition radix_digit :: "nat \<Rightarrow> char \<Rightarrow> nat option" where
  "radix_digit radix c =
     (let n = (of_char c :: nat);
          v = (if 48 \<le> n \<and> n \<le> 57 then Some (n - 48)
               else if 97 \<le> n \<and> n \<le> 102 then Some (n - 87)
               else if 65 \<le> n \<and> n \<le> 70 then Some (n - 55)
               else None)
      in case v of
           None \<Rightarrow> None
         | Some d \<Rightarrow> if d < radix then Some d else None)"

definition parse_radix :: "nat \<Rightarrow> string \<Rightarrow> jsnum" where
  "parse_radix radix ds =
     (if ds = [] \<or> \<not> list_all (\<lambda>c. radix_digit radix c \<noteq> None) ds then NaN
      else read_value
             (of_nat (foldl (\<lambda>acc c. acc * radix
                                      + (case radix_digit radix c of None \<Rightarrow> 0 | Some d \<Rightarrow> d))
                        0 ds)))"

definition Number_of :: "string \<Rightarrow> jsnum" where
  "Number_of str =
     (case trim str of
        [] \<Rightarrow> Fin 0
      | c # cs \<Rightarrow>
          if c = CHR ''0'' \<and> cs \<noteq> [] \<and> (hd cs = CHR ''x'' \<or> hd cs = CHR ''X'')
          then parse_radix 16 (tl cs)
          else if c = CHR ''0'' \<and> cs \<noteq> [] \<and> (hd cs = CHR ''o'' \<or> hd cs = CHR ''O'')
          then parse_radix 8 (tl cs)
          else if c = CHR ''0'' \<and> cs \<noteq> [] \<and> (hd cs = CHR ''b'' \<or> hd cs = CHR ''B'')
          then parse_radix 2 (tl cs)
          else if c = CHR ''-'' then js_neg (parse_unsigned cs)
          else if c = CHR ''+'' then parse_unsigned cs
          else parse_unsigned (c # cs))"

section \<open>Tracker classifiers\<close>

datatype TrackerBucket = savings | student_loans | emergency | extra_money

text \<open>The Home page: a label may carry a note, as in \<^verbatim>\<open>student loans (gift)\<close>.\<close>

definition trackerForRawBucket :: "string \<Rightarrow> TrackerBucket" where
  "trackerForRawBucket raw =
     (let x = trim (toLowerCase raw)
      in if startsWith x ''save'' then savings
         else if startsWith x ''student loans'' then student_loans
         else if startsWith x ''emergency'' then emergency
         else extra_money)"

text \<open>The Savings page has a function of the same name, which compares the whole label.\<close>

definition trackerForRawBucket_savings_page :: "string \<Rightarrow> TrackerBucket" where
  "trackerForRawBucket_savings_page raw =
     (let x = trim (toLowerCase raw)
      in if x = ''save'' then savings
         else if x = ''student loans'' then student_loans
         else if x = ''emergency'' then emergency
         else extra_money)"

text \<open>
  The bucket text that the Savings page writes for an adjustment of a tracker: the
  tracker's bucket name, followed by the note in brackets when a note is given.
\<close>

definition rawBucketForTracker :: "TrackerBucket \<Rightarrow> string" where
  "rawBucketForTracker tracker =
     (if tracker = savings then ''save''
      else if tracker = student_loans then ''student loans''
      else if tracker = emergency then ''emergency''
      else ''extra money'')"

definition adjustment_bucket :: "TrackerBucket \<Rightarrow> string \<Rightarrow> string" where
  "adjustment_bucket adjTracker adjNote =
     (let baseBucket = rawBucketForTracker adjTracker;
          note = trim adjNote
      in if note \<noteq> [] then baseBucket @ '' ('' @ note @ '')'' else baseBucket)"

text \<open>The collections library classifies a category name by the words it contains.\<close>

definition bucketForCategory :: "string \<Rightarrow> TrackerBucket" where
  "bucketForCategory category =
     (let c = toLowerCase category
      in if js_includes c ''student'' then student_loans
         else if js_includes c ''saving'' then savings
         else if js_includes c ''emerg'' then emergency
         else if js_includes c ''want'' \<or> js_includes c ''expense'' then extra_money
         else extra_money)"

section \<open>Goal progress\<close>

definition clamp :: "rat \<Rightarrow> rat \<Rightarrow> rat \<Rightarrow> rat" where
  "clamp n mn mx = max mn (min mx n)"

text \<open>The two values \<^verbatim>\<open>pct\<close> and \<^verbatim>\<open>remaining\<close> that \<^verbatim>\<open>GoalDonutCard\<close> derives.\<close>

definition GoalDonutCard_pct :: "rat \<Rightarrow> rat \<Rightarrow> rat" where
  "GoalDonutCard_pct current target =
     (if target \<le> 0 then 0 else clamp ((current / target) * 100) 0 100)"

definition GoalDonutCard_remaining :: "rat \<Rightarrow> rat \<Rightarrow> rat" where
  "GoalDonutCard_remaining current target = max (target - current) 0"

section \<open>Bucket-locked transaction categories\<close>

definition TX_BUCKET_DELIM :: string where
  "TX_BUCKET_DELIM = ''::''"

definition makeStoredCategory :: "string \<Rightarrow> string \<Rightarrow> string" where
  "makeStoredCategory bucket raw = bucket @ TX_BUCKET_DELIM @ raw"

record parsed_category =
  pc_bucket :: "string option"
  pc_raw :: string

definition splitStoredCategory :: "string \<Rightarrow> parsed_category" where
  "splitStoredCategory category =
     (case indexOf category TX_BUCKET_DELIM of
        None \<Rightarrow> \<lparr>pc_bucket = None, pc_raw = category\<rparr>
      | Some idx \<Rightarrow>
          if 0 < idx then
            (let b = trim (take idx category);
                 raw = trim (drop (idx + length TX_BUCKET_DELIM) category)
             in if b \<in> set BUCKETS \<and> raw \<noteq> [] then \<lparr>pc_bucket = Some b, pc_raw = raw\<rparr>
                else \<lparr>pc_bucket = None, pc_raw = category\<rparr>)
          else \<lparr>pc_bucket = None, pc_raw = category\<rparr>)"

section \<open>Ledger aggregator\<close>

text \<open>
  The rows of the week as the dashboard holds them, with the fields the aggregator and
  the mutations read: every row belongs to the signed-in user, and the identifiers,
  descriptions and creation times play no part below.
\<close>

record Transaction =
  tx_date :: string
  tx_amount :: rat
  tx_category :: string

record Budget =
  b_week_start :: string
  b_category :: string
  b_amount :: rat

record CategoryMapRow =
  raw_category :: string
  cm_bucket :: string

record BucketTransfer =
  tr_week_start :: string
  from_bucket :: string
  to_bucket :: string
  tr_amount :: rat

record Row =
  r_category :: string
  r_budgeted :: rat
  r_spent :: rat
  r_variance :: rat

text \<open>\<^verbatim>\<open>m.get(k) ?? 0\<close> on a map of numbers.\<close>

definition get0 :: "('k \<rightharpoonup> rat) \<Rightarrow> 'k \<Rightarrow> rat" where
  "get0 m k = (case m k of None \<Rightarrow> 0 | Some v \<Rightarrow> v)"

definition mapDict :: "CategoryMapRow list \<Rightarrow> (string \<rightharpoonup> string)" where
  "mapDict categoryMap = fold (\<lambda>row d. d(raw_category row \<mapsto> cm_bucket row)) categoryMap Map.empty"

text \<open>\<^verbatim>\<open>parsed.bucket ?? mapDict.get(t.category)\<close>\<close>

definition tx_bucket :: "(string \<rightharpoonup> string) \<Rightarrow> Transaction \<Rightarrow> string option" where
  "tx_bucket md t =
     (case pc_bucket (splitStoredCategory (tx_category t)) of
        Some b \<Rightarrow> Some b
      | None \<Rightarrow> md (tx_category t))"


definition baseBudgetByBucket :: "Budget list \<Rightarrow> (string \<rightharpoonup> rat)" where
  "baseBudgetByBucket budgets =
     fold (\<lambda>b m. m(b_category b \<mapsto> get0 m (b_category b) + b_amount b)) budgets Map.empty"

definition spentByBucket :: "Transaction list \<Rightarrow> (string \<rightharpoonup> string) \<Rightarrow> (string \<rightharpoonup> rat)" where
  "spentByBucket transactions md =
     fold (\<lambda>t m.
        if 0 \<le> tx_amount t then m
        else case tx_bucket md t of
               None \<Rightarrow> m
             | Some bucket \<Rightarrow>
                 if bucket = [] then m
                 else m(bucket \<mapsto> get0 m bucket + \<bar>tx_amount t\<bar>))
       transactions Map.empty"

definition deltaByBucket :: "BucketTransfer list \<Rightarrow> (string \<rightharpoonup> rat)" where
  "deltaByBucket transfers =
     fold (\<lambda>tr m.
        let amt = tr_amount tr;
            m' = m(from_bucket tr \<mapsto> get0 m (from_bucket tr) - amt)
        in m'(to_bucket tr \<mapsto> get0 m' (to_bucket tr) + amt))
       transfers Map.empty"

definition rows ::
  "Budget list \<Rightarrow> Transaction list \<Rightarrow> (string \<rightharpoonup> string) \<Rightarrow> BucketTransfer list \<Rightarrow> Row list" where
  "rows budgets transactions md transfers =
     map (\<lambda>bucket.
        let base = get0 (baseBudgetByBucket budgets) bucket;
            delta = get0 (deltaByBucket transfers) bucket;
            budgeted = clamp2 (base + delta);
            spent = clamp2 (get0 (spentByBucket transactions md) bucket)
        in \<lparr>r_category = bucket, r_budgeted = budgeted, r_spent = spent,
            r_variance = clamp2 (budgeted - spent)\<rparr>)
       BUCKETS"

section \<open>The dashboard\<close>

text \<open>
  The state of the \<^verbatim>\<open>Dashboard\<close> component that the mutations below read or write.
\<close>

record dashboard =
  weekStart :: "string option"
  budgets :: "Budget list"
  transactions :: "Transaction list"
  categoryMap :: "CategoryMapRow list"
  transfers :: "BucketTransfer list"
  collectedSet :: "string set"
  coverSource :: "string \<rightharpoonup> string"
  coverAmount :: "string \<rightharpoonup> string"
  incomeInput :: string
  newWeekStartDate :: string
  showAddWeek :: bool

definition rows_of :: "dashboard \<Rightarrow> Row list" where
  "rows_of st = rows (budgets st) (transactions st) (mapDict (categoryMap st)) (transfers st)"

definition availableFromBucket :: "dashboard \<Rightarrow> string \<Rightarrow> rat" where
  "availableFromBucket st bucket =
     (case find (\<lambda>x. r_category x = bucket) (rows_of st) of
        None \<Rightarrow> 0
      | Some r \<Rightarrow> if bucket \<in> collectedSet st then 0 else max 0 (clamp2 (r_variance r)))"

subsection \<open>The store and the session\<close>

text \<open>
  The store is an outside service. A mutation is modelled by the requests that write to or
  delete from the store, in the order the code issues them, and by the state of the
  component afterwards. A number travels to the store as the code computed it.
\<close>

datatype request =
    Upsert_weekly_income string string jsnum
  | Delete_budgets string string
  | Delete_bucket_transfers string string
  | Insert_budgets "budget_insert list"
  | Insert_bucket_collection string string string rat
  | Delete_bucket_collections string string string
  | Insert_bucket_transfer string BucketTransfer

text \<open>
  What the surroundings decide: whether a session exists, the user the authentication
  service names, which requests the store answers with an error, the week start the
  clock and the preferences give, and what the store holds in the tables that the
  dashboard only reads.
\<close>

record env =
  session :: bool
  user :: "string option"
  store_fails :: "request \<Rightarrow> bool"
  clock_week_start :: string
  week_transactions :: "string \<Rightarrow> Transaction list"
  week_collected :: "string \<Rightarrow> string set"
  stored_category_map :: "CategoryMapRow list"

text \<open>
  How a handler ends: it did its work, it returned without a message, it sent the user to
  the login page, or it set an error message.
\<close>

datatype outcome = Done | Ignored | Redirected | Failed string

subsection \<open>Collect and undo\<close>

definition collectBucket :: "env \<Rightarrow> dashboard \<Rightarrow> string \<Rightarrow> rat \<Rightarrow> outcome \<times> request list \<times> dashboard" where
  "collectBucket e st bucket amount =
     (if amount \<le> 0 then (Ignored, [], st)
      else if \<not> session e then (Redirected, [], st)
      else case user e of
        None \<Rightarrow> (Failed ''No user found.'', [], st)
      | Some uid \<Rightarrow>
         (case weekStart st of
            None \<Rightarrow> (Failed ''No active week to collect from.'', [], st)
          | Some ws \<Rightarrow>
             (let rounded = clamp2 amount;
                  req = Insert_bucket_collection uid ws bucket rounded
              in if store_fails e req then (Failed ''store error'', [req], st)
                 else (Done, [req], st\<lparr>collectedSet := insert bucket (collectedSet st)\<rparr>))))"

definition undoCollect :: "env \<Rightarrow> dashboard \<Rightarrow> string \<Rightarrow> outcome \<times> request list \<times> dashboard" where
  "undoCollect e st bucket =
     (if \<not> session e then (Redirected, [], st)
      else case user e of
        None \<Rightarrow> (Failed ''No user found.'', [], st)
      | Some uid \<Rightarrow>
         (case weekStart st of
            None \<Rightarrow> (Failed ''No active week to undo from.'', [], st)
          | Some ws \<Rightarrow>
             (let req = Delete_bucket_collections uid ws bucket
              in if store_fails e req then (Failed ''store error'', [req], st)
                 else (Done, [req], st\<lparr>collectedSet := collectedSet st - {bucket}\<rparr>))))"

text \<open>
  The control at the right of a bucket's row: the Undo button when the bucket is in the
  collected set, otherwise the Collect button, which is disabled unless the variance is
  greater than 0. \<open>press_collect\<close> is a press on the Collect button of a bucket's row and
  \<open>press_undo\<close> a press on its Undo button; a button that is not there or is disabled
  does nothing.
\<close>

datatype control = Collect_button bool | Undo_button

definition collect_control :: "dashboard \<Rightarrow> Row \<Rightarrow> control" where
  "collect_control st r =
     (let collected = r_category r \<in> collectedSet st;
          canCollect = 0 < r_variance r
      in if \<not> collected then Collect_button canCollect else Undo_button)"

definition press_collect :: "env \<Rightarrow> dashboard \<Rightarrow> string \<Rightarrow> outcome \<times> request list \<times> dashboard" where
  "press_collect e st bucket =
     (case find (\<lambda>r. r_category r = bucket) (rows_of st) of
        None \<Rightarrow> (Ignored, [], st)
      | Some r \<Rightarrow>
         (case collect_control st r of
            Collect_button enabled \<Rightarrow>
              if enabled then collectBucket e st (r_category r) (r_variance r)
              else (Ignored, [], st)
          | Undo_button \<Rightarrow> (Ignored, [], st)))"

definition press_undo :: "env \<Rightarrow> dashboard \<Rightarrow> string \<Rightarrow> outcome \<times> request list \<times> dashboard" where
  "press_undo e st bucket =
     (case find (\<lambda>r. r_category r = bucket) (rows_of st) of
        None \<Rightarrow> (Ignored, [], st)
      | Some r \<Rightarrow>
         (case collect_control st r of
            Collect_button enabled \<Rightarrow> (Ignored, [], st)
          | Undo_button \<Rightarrow> undoCollect e st (r_category r)))"

subsection \<open>Cover overspend\<close>

text \<open>
  \<^verbatim>\<open>coverOverspend\<close> ends by loading the week again. In one session the store then holds
  the rows the component had loaded and the transfer just inserted, the newest last; a
  week without budget rows is loaded as empty.
\<close>

definition loadWeekAll_after_transfer :: "dashboard \<Rightarrow> BucketTransfer \<Rightarrow> dashboard" where
  "loadWeekAll_after_transfer st tr =
     (if budgets st = [] then st\<lparr>transactions := [], collectedSet := {}, transfers := []\<rparr>
      else st\<lparr>transfers := transfers st @ [tr]\<rparr>)"

text \<open>
  The two form fields of a row in deficit, trimmed: the chosen source bucket
  (\<^verbatim>\<open>from\<close> in the code) and the text of the optional amount (\<^verbatim>\<open>wantStr\<close>).
\<close>

definition cover_from :: "dashboard \<Rightarrow> string \<Rightarrow> string" where
  "cover_from st targetBucket =
     trim (case coverSource st targetBucket of None \<Rightarrow> [] | Some s \<Rightarrow> s)"

definition cover_wantStr :: "dashboard \<Rightarrow> string \<Rightarrow> string" where
  "cover_wantStr st targetBucket =
     trim (case coverAmount st targetBucket of None \<Rightarrow> [] | Some s \<Rightarrow> s)"

definition coverOverspend ::
  "(string \<Rightarrow> jsnum) \<Rightarrow> env \<Rightarrow> dashboard \<Rightarrow> string \<Rightarrow> outcome \<times> request list \<times> dashboard" where
  "coverOverspend num e st targetBucket =
     (case weekStart st of
        None \<Rightarrow> (Failed ''No active week.'', [], st)
      | Some ws \<Rightarrow>
         (case find (\<lambda>r. r_category r = targetBucket) (rows_of st) of
            None \<Rightarrow> (Ignored, [], st)
          | Some targetRow \<Rightarrow>
             if 0 \<le> r_variance targetRow then (Ignored, [], st)
             else
               let remainingOver = clamp2 \<bar>r_variance targetRow\<bar>;
                   from = cover_from st targetBucket
               in if from = [] then (Failed ''Choose a source bucket to cover from.'', [], st)
                  else if from = targetBucket
                  then (Failed ''Source and target can't be the same.'', [], st)
                  else
                    let available = availableFromBucket st from
                    in if available \<le> 0
                       then (Failed ''That source bucket has no available money.'', [], st)
                       else
                         let wantStr = cover_wantStr st targetBucket;
                             amt = (if wantStr \<noteq> [] then num wantStr
                                    else Fin (min remainingOver available))
                         in case amt of
                              Fin a \<Rightarrow>
                                if a \<le> 0 then (Failed ''Enter a valid cover amount.'', [], st)
                                else
                                  let amt' = clamp2 (min a (min remainingOver available))
                                  in if \<not> session e then (Redirected, [], st)
                                     else (case user e of
                                        None \<Rightarrow> (Failed ''No user found.'', [], st)
                                      | Some uid \<Rightarrow>
                                         (let tr = \<lparr>tr_week_start = ws, from_bucket = from,
                                                    to_bucket = targetBucket, tr_amount = amt'\<rparr>;
                                              req = Insert_bucket_transfer uid tr
                                          in if store_fails e req
                                             then (Failed ''store error'', [req], st)
                                             else (Done, [req],
                                                   loadWeekAll_after_transfer
                                                     (st\<lparr>coverAmount :=
                                                          (coverAmount st)(targetBucket \<mapsto> [])\<rparr>)
                                                     tr)))
                            | _ \<Rightarrow> (Failed ''Enter a valid cover amount.'', [], st)))"

subsection \<open>Adding a week\<close>

definition rebuildBudgetsForWeek :: "env \<Rightarrow> string \<Rightarrow> jsnum \<Rightarrow> outcome \<times> request list" where
  "rebuildBudgetsForWeek e ws income =
     (if \<not> session e then (Redirected, [])
      else case user e of
        None \<Rightarrow> (Failed ''No user found.'', [])
      | Some uid \<Rightarrow>
         (let upsert = Upsert_weekly_income uid ws (clamp2N income)
          in if store_fails e upsert then (Failed ''store error'', [upsert])
             else
               let del_budgets = Delete_budgets uid ws;
                   del_transfers = Delete_bucket_transfers uid ws;
                   inserts = buildBudgetInsertsExactTotal uid ws income;
                   ins = Insert_budgets inserts
               in if store_fails e ins
                  then (Failed ''store error'', [upsert, del_budgets, del_transfers, ins])
                  else (Done, [upsert, del_budgets, del_transfers, ins])))"

text \<open>
  A budget row as it is read back: JSON writes a number that is not finite as null, and
  \<^verbatim>\<open>Number(null)\<close> is 0.
\<close>

definition budget_of_insert :: "budget_insert \<Rightarrow> Budget" where
  "budget_of_insert bi =
     \<lparr>b_week_start = bi_week_start bi, b_category = bi_category bi,
      b_amount = (case bi_amount bi of Fin a \<Rightarrow> a | _ \<Rightarrow> 0)\<rparr>"

text \<open>The budget rows that a list of requests inserts.\<close>

fun inserted_budgets :: "request list \<Rightarrow> budget_insert list" where
  "inserted_budgets [] = []"
| "inserted_budgets (Insert_budgets rs # qs) = rs @ inserted_budgets qs"
| "inserted_budgets (_ # qs) = inserted_budgets qs"

text \<open>
  \<^verbatim>\<open>loadWeekAll\<close> of the week just rebuilt: the budgets are the rows inserted and there is
  no transfer (the code does not look at the answers to the two deletes; they are taken to
  have been carried out); transactions, collected buckets and category mappings are what
  the store holds.
\<close>

definition loadWeekAll_rebuilt :: "env \<Rightarrow> dashboard \<Rightarrow> string \<Rightarrow> budget_insert list \<Rightarrow> dashboard" where
  "loadWeekAll_rebuilt e st ws inserts =
     st\<lparr>weekStart := Some ws,
        categoryMap := stored_category_map e,
        budgets := map budget_of_insert inserts,
        transactions := week_transactions e ws,
        collectedSet := week_collected e ws,
        transfers := []\<rparr>"

definition addNewWeekFromIncome ::
  "(string \<Rightarrow> jsnum) \<Rightarrow> env \<Rightarrow> dashboard \<Rightarrow> outcome \<times> request list \<times> dashboard" where
  "addNewWeekFromIncome num e st =
     (let income = num (incomeInput st)
      in if incomeInput st = [] \<or> isNaN income \<or> js_le_zero income
         then (Failed ''Income must be a number greater than 0.'', [], st)
         else
           let ws = (if trim (newWeekStartDate st) \<noteq> [] then trim (newWeekStartDate st)
                     else clock_week_start e);
               (ok, reqs) = rebuildBudgetsForWeek e ws income
           in if ok \<noteq> Done then (ok, reqs, st)
              else (Done, reqs,
                    loadWeekAll_rebuilt e (st\<lparr>showAddWeek := False, incomeInput := []\<rparr>) ws
                      (inserted_budgets reqs)))"

section \<open>The collections library\<close>

text \<open>
  \<^verbatim>\<open>collections.ts\<close> keeps its own table. The table is modelled as the list of its rows in
  the order of their creation, so the newest row is the last, and the identifier of a row
  is its position. Undoing does not delete a row: it stamps \<^verbatim>\<open>undone_at\<close>.
\<close>

record collection =
  col_user_id :: string
  col_week_id :: string
  col_category :: string
  col_bucket :: TrackerBucket
  col_amount :: rat
  col_undone_at :: "string option"

datatype lib_error = Not_logged_in | Store_error

text \<open>The answers of the service to the library: the user, and which calls fail.\<close>

record lib_env =
  lib_user :: "string option"
  insert_fails :: bool
  select_fails :: bool
  update_fails :: bool

definition collectLeftover ::
  "lib_env \<Rightarrow> collection list \<Rightarrow> string \<Rightarrow> string \<Rightarrow> rat
     \<Rightarrow> (lib_error + (nat \<times> collection) option) \<times> collection list" where
  "collectLeftover e tbl weekId category amount =
     (if amount = 0 \<or> amount \<le> 0 then (Inr None, tbl)
      else case lib_user e of
        None \<Rightarrow> (Inl Not_logged_in, tbl)
      | Some userId \<Rightarrow>
         (let row = \<lparr>col_user_id = userId, col_week_id = weekId, col_category = category,
                     col_bucket = bucketForCategory category, col_amount = amount,
                     col_undone_at = None\<rparr>
          in if insert_fails e then (Inl Store_error, tbl)
             else (Inr (Some (length tbl, row)), tbl @ [row])))"

text \<open>The active rows of a user for a week and category, as positions, oldest first.\<close>

definition active_rows :: "collection list \<Rightarrow> string \<Rightarrow> string \<Rightarrow> string \<Rightarrow> nat list" where
  "active_rows tbl userId weekId category =
     filter (\<lambda>i. col_user_id (tbl ! i) = userId \<and> col_week_id (tbl ! i) = weekId
                 \<and> col_category (tbl ! i) = category \<and> col_undone_at (tbl ! i) = None)
       [0 ..< length tbl]"

definition undoCollect_lib ::
  "lib_env \<Rightarrow> string \<Rightarrow> collection list \<Rightarrow> string \<Rightarrow> string
     \<Rightarrow> (lib_error + (nat \<times> rat \<times> string) option) \<times> collection list" where
  "undoCollect_lib e now tbl weekId category =
     (case lib_user e of
        None \<Rightarrow> (Inl Not_logged_in, tbl)
      | Some userId \<Rightarrow>
         if select_fails e then (Inl Store_error, tbl)
         else case rev (active_rows tbl userId weekId category) of
           [] \<Rightarrow> (Inr None, tbl)
         | i # _ \<Rightarrow>
             if update_fails e then (Inl Store_error, tbl)
             else (Inr (Some (i, col_amount (tbl ! i), now)),
                   tbl[i := (tbl ! i)\<lparr>col_undone_at := Some now\<rparr>]))"

text \<open>
  \<^verbatim>\<open>CollectButton\<close>: the button keeps its own flag \<^verbatim>\<open>isCollected\<close>; a press collects the
  remaining amount or undoes, and flips the flag unless the library threw. Its other flag,
  \<^verbatim>\<open>loading\<close>, is set only while a press is being handled and is false at every press.
\<close>

definition CollectButton_onClick ::
  "lib_env \<Rightarrow> string \<Rightarrow> collection list \<times> bool \<Rightarrow> string \<Rightarrow> string \<Rightarrow> rat
     \<Rightarrow> collection list \<times> bool" where
  "CollectButton_onClick e now s weekId category remaining =
     (let tbl = fst s; isCollected = snd s;
          disabled = (\<not> isCollected \<and> remaining \<le> 0)
      in if disabled then s
         else if \<not> isCollected then
           (case collectLeftover e tbl weekId category remaining of
              (Inl _, tbl') \<Rightarrow> (tbl', isCollected)
            | (Inr _, tbl') \<Rightarrow> (tbl', True))
         else
           (case undoCollect_lib e now tbl weekId category of
              (Inl _, tbl') \<Rightarrow> (tbl', isCollected)
            | (Inr _, tbl') \<Rightarrow> (tbl', False)))"

section \<open>Weeks the dashboard can show\<close>

text \<open>
  The states of the dashboard: the empty state of a fresh component, and every state that
  follows from one of them by adding a week, covering an overspend, pressing Collect or
  Undo, or by changes to the transactions, the category mappings and the form fields
  (which the handlers for transactions and mappings bring about).
\<close>

definition initial_dashboard :: dashboard where
  "initial_dashboard =
     \<lparr>weekStart = None, budgets = [], transactions = [], categoryMap = [], transfers = [],
      collectedSet = {}, coverSource = Map.empty, coverAmount = Map.empty,
      incomeInput = [], newWeekStartDate = [], showAddWeek = False\<rparr>"


text \<open>
  What can happen to a loaded week without loading another one: a press on the Collect or
  the Undo button of a row, a press on the cover button of a row, and a change of the
  transactions, the category mappings or the form fields. Each action comes with the
  surroundings it meets; \<open>run\<close> lets a list of actions happen one after the other.
\<close>

datatype action =
    Press_collect string
  | Press_undo string
  | Press_cover string
  | Edit "Transaction list" "CategoryMapRow list" "string \<rightharpoonup> string" "string \<rightharpoonup> string"
      string string bool

fun act :: "(string \<Rightarrow> jsnum) \<Rightarrow> env \<times> action \<Rightarrow> dashboard \<Rightarrow> dashboard" where
  "act num (e, Press_collect b) st = snd (snd (press_collect e st b))"
| "act num (e, Press_undo b) st = snd (snd (press_undo e st b))"
| "act num (e, Press_cover t) st = snd (snd (coverOverspend num e st t))"
| "act num (e, Edit txs cm cs ca inc nw sh) st =
     st\<lparr>transactions := txs, categoryMap := cm, coverSource := cs, coverAmount := ca,
        incomeInput := inc, newWeekStartDate := nw, showAddWeek := sh\<rparr>"


text \<open>An amount that is a whole number of cents.\<close>

definition is_cents :: "rat \<Rightarrow> bool" where
  "is_cents a = (clamp2 a = a)"

section \<open>The quantities of the specification\<close>




section \<open>An example week\<close>

text \<open>
  A signed-in user whose store answers every request; a week with an income of 200, rent
  of 85 against expenses, 10 spent on wants, a gift of 20 received in save and a legacy
  transaction without a mapping. The overspend of expenses is then covered from wants.
\<close>

definition example_transactions :: "Transaction list" where
  "example_transactions =
     [\<lparr>tx_date = ''2024-01-06'', tx_amount = - 85, tx_category = ''expenses::rent''\<rparr>,
      \<lparr>tx_date = ''2024-01-07'', tx_amount = - 10, tx_category = ''wants::coffee''\<rparr>,
      \<lparr>tx_date = ''2024-01-07'', tx_amount = 20, tx_category = ''save::gift''\<rparr>,
      \<lparr>tx_date = ''2024-01-08'', tx_amount = - 3, tx_category = ''misc''\<rparr>]"

definition example_env :: env where
  "example_env =
     \<lparr>session = True, user = Some ''u1'', store_fails = (\<lambda>_. False),
      clock_week_start = ''2024-01-05'',
      week_transactions = (\<lambda>_. example_transactions),
      week_collected = (\<lambda>_. {}),
      stored_category_map = []\<rparr>"

definition example_form :: dashboard where
  "example_form = initial_dashboard\<lparr>incomeInput := ''200'', newWeekStartDate := ''2024-01-05''\<rparr>"

definition example_week :: dashboard where
  "example_week = snd (snd (addNewWeekFromIncome Number_of example_env example_form))"

definition example_week_chosen :: dashboard where
  "example_week_chosen = example_week\<lparr>coverSource := [''expenses'' \<mapsto> ''wants'']\<rparr>"

definition example_week_covered :: dashboard where
  "example_week_covered =
     snd (snd (coverOverspend Number_of example_env example_week_chosen ''expenses''))"




text \<open>The add-week form with the text \<^verbatim>\<open>Infinity\<close> typed as the income.\<close>

definition example_form_infinity :: dashboard where
  "example_form_infinity =
     initial_dashboard\<lparr>incomeInput := ''Infinity'', newWeekStartDate := ''2024-01-05''\<rparr>"



section \<open>Properties of the allocation builder\<close>

lemma round_half_up_of_int [simp]: "round_half_up (of_int k) = k"
  unfolding round_half_up_def by linarith

lemma round_half_up_numeral [simp]: "round_half_up (numeral n) = numeral n"
  "round_half_up 0 = 0" "round_half_up 1 = 1"
  using round_half_up_of_int [of "numeral n"] round_half_up_of_int [of 0] round_half_up_of_int [of 1]
  by simp_all

lemma floor_rat_numeral [simp]:
  "\<lfloor>numeral a / numeral b :: rat\<rfloor> = numeral a div numeral b"
  "\<lfloor>- (numeral a / numeral b) :: rat\<rfloor> = - numeral a div numeral b"
  "\<lfloor>1 / numeral b :: rat\<rfloor> = 1 div numeral b"
  "\<lfloor>- (1 / numeral b) :: rat\<rfloor> = - 1 div numeral b"
  using floor_divide_of_int_eq [of "numeral a" "numeral b", where ?'a = rat]
    floor_divide_of_int_eq [of "- numeral a" "numeral b", where ?'a = rat]
    floor_divide_of_int_eq [of 1 "numeral b", where ?'a = rat]
    floor_divide_of_int_eq [of "- 1" "numeral b", where ?'a = rat]
  by simp_all

subsection \<open>Overflow\<close>

text \<open>A result of magnitude up to \<open>2 ^ 60\<close> is finite.\<close>

lemma js_num_Fin: "\<bar>x\<bar> \<le> 2 ^ 60 \<Longrightarrow> js_num x = Fin x"
  by (simp add: js_num_def double_limit_def) linarith

lemma js_num_cases:
  obtains "js_num x = Fin x" | "js_num x = PInf" | "js_num x = NInf"
proof -
  have "js_num x = Fin x \<or> js_num x = PInf \<or> js_num x = NInf"
    by (simp add: js_num_def)
  then show ?thesis using that by blast
qed

lemma of_int_bound: "\<bar>k\<bar> \<le> 2 ^ 60 \<Longrightarrow> \<bar>of_int k :: rat\<bar> \<le> 2 ^ 60"
proof -
  assume "\<bar>k\<bar> \<le> 2 ^ 60"
  then have "of_int \<bar>k\<bar> \<le> (of_int (2 ^ 60) :: rat)" by (simp only: of_int_le_iff)
  then show ?thesis by simp
qed

lemma js_num_of_int: "\<bar>k\<bar> \<le> 2 ^ 60 \<Longrightarrow> js_num (of_int k) = Fin (of_int k)"
proof -
  assume "\<bar>k\<bar> \<le> 2 ^ 60"
  then have "\<bar>of_int k :: rat\<bar> \<le> 2 ^ 60" by (rule of_int_bound)
  then show ?thesis by (intro js_num_Fin) simp
qed

lemma js_num_of_int_100: "\<bar>k\<bar> \<le> 2 ^ 60 \<Longrightarrow> js_num (of_int k / 100) = Fin (of_int k / 100)"
proof -
  assume "\<bar>k\<bar> \<le> 2 ^ 60"
  then have "\<bar>of_int k :: rat\<bar> \<le> 2 ^ 60" by (rule of_int_bound)
  then show ?thesis by (intro js_num_Fin) simp
qed

lemma js_add_int:
  assumes "\<bar>a\<bar> \<le> 2 ^ 59" "\<bar>b\<bar> \<le> 2 ^ 59"
  shows "js_add (Fin (of_int a)) (Fin (of_int b)) = Fin (of_int (a + b))"
proof -
  from assms have "\<bar>a + b\<bar> \<le> 2 ^ 60" by simp
  then have "js_num (of_int (a + b)) = Fin (of_int (a + b))" by (rule js_num_of_int)
  then show ?thesis by simp
qed

subsection \<open>The cents of the buckets\<close>

lemma toCents_finite:
  assumes "toCents (Fin x) = Fin (of_int c)"
  shows "c = round_half_up (x * 100)" and "js_num (x * 100) = Fin (x * 100)"
  using assms by (cases "x * 100" rule: js_num_cases; simp add: toCents_def)+

lemma toCents_nonneg: "0 < x \<Longrightarrow> toCents (Fin x) = Fin (of_int c) \<Longrightarrow> 0 \<le> c"
  using toCents_finite(1) [of x c] by (simp add: round_half_up_def)

lemma round_half_up_percent: "round_half_up (of_int c * (of_int n / 100)) = (n * c + 50) div 100"
proof -
  have "of_int c * (of_int n / 100) + 1 / 2 = (of_int (n * c + 50) / of_int 100 :: rat)"
    by (simp add: field_simps)
  then show ?thesis
    unfolding round_half_up_def by (simp only: floor_divide_of_int_eq)
qed

lemma div100_le: "100 * ((k::int) div 100) \<le> k"
  using mod_mult_div_eq [of k 100] pos_mod_sign [of 100 k] by linarith

lemma percent_bounds:
  assumes "0 \<le> (c::int)" "0 \<le> n" "n \<le> 50"
  shows "0 \<le> (n * c + 50) div 100" and "(n * c + 50) div 100 \<le> c"
proof -
  have "0 \<le> n * c + 50" using assms by simp
  then show "0 \<le> (n * c + 50) div 100" by (simp add: pos_imp_zdiv_nonneg_iff)
  have "n * c \<le> 50 * c" using assms by (simp add: mult_right_mono)
  with div100_le [of "n * c + 50"] assms(1)
  have "100 * ((n * c + 50) div 100) \<le> 100 * c + 50" by linarith
  then show "(n * c + 50) div 100 \<le> c" by linarith
qed

lemma mul_percent:
  assumes "0 \<le> c" "c \<le> 2 ^ 53" "0 \<le> n" "n \<le> 50"
  shows "js_round (js_mul (Fin (of_int c)) (Fin (of_int n / 100)))
           = Fin (of_int ((n * c + 50) div 100))"
proof -
  have "\<bar>n * c\<bar> \<le> 2 ^ 60"
  proof -
    have "n * c \<le> 50 * 2 ^ 53" using assms by (intro mult_mono) simp_all
    moreover have "0 \<le> n * c" using assms by simp
    ultimately show ?thesis by simp
  qed
  then have "js_num (of_int (n * c) / 100) = Fin (of_int (n * c) / 100)"
    by (rule js_num_of_int_100)
  moreover have "of_int c * (of_int n / 100) = (of_int (n * c) / 100 :: rat)" by simp
  ultimately have "js_mul (Fin (of_int c)) (Fin (of_int n / 100))
      = Fin (of_int c * (of_int n / 100))"
    by (simp del: of_int_mult)
  then show ?thesis by (simp only: js_round.simps round_half_up_percent)
qed

lemma build_cents:
  assumes ic: "toCents income = Fin (of_int c)" and c0: "0 \<le> c" and cb: "c \<le> 2 ^ 53"
  shows "buildBudgetInsertsExactTotal u w income =
     map (\<lambda>(b, k). \<lparr>bi_user_id = u, bi_week_start = w, bi_category = b,
                     bi_amount = Fin (of_int k / 100)\<rparr>)
       (zip [''save'', ''wants'', ''emergency'', ''student loans'', ''expenses'']
            (bucket_cents c))"
proof -
  define a where "a = (15 * c + 50) div 100"
  define e where "e = (10 * c + 50) div 100"
  define s where "s = (25 * c + 50) div 100"
  define p where "p = (30 * c + 50) div 100"
  define x where "x = c - (a + a + e + s)"
  have ba: "0 \<le> a" "a \<le> c" unfolding a_def using percent_bounds [OF c0, of 15] by simp_all
  have be: "0 \<le> e" "e \<le> c" unfolding e_def using percent_bounds [OF c0, of 10] by simp_all
  have bs: "0 \<le> s" "s \<le> c" unfolding s_def using percent_bounds [OF c0, of 25] by simp_all
  have bp: "0 \<le> p" "p \<le> c" unfolding p_def using percent_bounds [OF c0, of 30] by simp_all
  have cb': "c \<le> 9007199254740992" using cb by simp
  have ma: "js_round (js_mul (Fin (of_int c)) (Fin (3 / 20))) = Fin (of_int a)"
    unfolding a_def using mul_percent [OF c0 cb, of 15] by (simp del: js_mul.simps)
  have me: "js_round (js_mul (Fin (of_int c)) (Fin (1 / 10))) = Fin (of_int e)"
    unfolding e_def using mul_percent [OF c0 cb, of 10] by (simp del: js_mul.simps)
  have ms: "js_round (js_mul (Fin (of_int c)) (Fin (1 / 4))) = Fin (of_int s)"
    unfolding s_def using mul_percent [OF c0 cb, of 25] by (simp del: js_mul.simps)
  have mp: "js_round (js_mul (Fin (of_int c)) (Fin (3 / 10))) = Fin (of_int p)"
    unfolding p_def using mul_percent [OF c0 cb, of 30] by (simp del: js_mul.simps)
  let ?m = "[(''save'', Fin (of_int a)), (''wants'', Fin (of_int a)),
             (''emergency'', Fin (of_int e)), (''student loans'', Fin (of_int s)),
             (''expenses'', Fin (of_int p))]"
  have m: "fold (\<lambda>a m. map_set (fst a) (js_round (js_mul (toCents income) (Fin (snd a)))) m)
              ALLOCATIONS [] = ?m"
    by (simp add: ic ALLOCATIONS_def ma me ms mp del: js_mul.simps)
  have s1: "js_add (Fin 0) (Fin (of_int a)) = Fin (of_int a)"
    using js_add_int [of 0 a] ba cb' by simp
  have s2: "js_add (Fin (of_int a)) (Fin (of_int a)) = Fin (of_int (a + a))"
    using ba cb' by (intro js_add_int) simp_all
  have s3: "js_add (Fin (of_int (a + a))) (Fin (of_int e)) = Fin (of_int (a + a + e))"
    using ba be cb' by (intro js_add_int) simp_all
  have s4: "js_add (Fin (of_int (a + a + e))) (Fin (of_int s)) = Fin (of_int (a + a + e + s))"
    using ba be bs cb' by (intro js_add_int) simp_all
  have s5: "js_add (Fin (of_int (a + a + e + s))) (Fin (of_int p))
      = Fin (of_int (a + a + e + s + p))"
    using ba be bs bp cb' by (intro js_add_int) simp_all
  have sm: "js_sum (map snd ?m) = Fin (of_int (a + a + e + s + p))"
    unfolding js_sum_def by (simp only: list.map snd_conv foldl.simps s1 s2 s3 s4 s5)
  have lo: "js_sub (toCents income) (Fin (of_int (a + a + e + s + p)))
      = Fin (of_int (c - (a + a + e + s + p)))"
    using ba be bs bp cb' c0
      js_add_int [of c "- (a + a + e + s + p)"]
    by (simp add: ic js_sub_def del: js_add.simps)
  have ex: "js_add (map_get_or ?m ''expenses'' (Fin 0)) (Fin (of_int (c - (a + a + e + s + p))))
      = Fin (of_int x)"
    using ba be bs bp cb' c0 js_add_int [of p "c - (a + a + e + s + p)"]
    by (simp add: map_get_or_def x_def del: js_add.simps)
  have bx: "\<bar>x\<bar> \<le> 2 ^ 60" unfolding x_def using ba be bs bp cb' c0 by simp
  have ca: "centsToNumber (Fin (of_int k)) = Fin (of_int k / 100)" if "\<bar>k\<bar> \<le> 2 ^ 60" for k
    using js_num_of_int_100 [OF that] by (simp add: centsToNumber_def)
  have ka: "\<bar>a\<bar> \<le> 2 ^ 60" "\<bar>e\<bar> \<le> 2 ^ 60" "\<bar>s\<bar> \<le> 2 ^ 60"
    using ba be bs cb' by simp_all
  have bc: "bucket_cents c = [a, a, e, s, x]"
    unfolding bucket_cents_def Let_def a_def e_def s_def x_def
    using round_half_up_percent [of c 15] round_half_up_percent [of c 10]
      round_half_up_percent [of c 25]
    by simp
  show ?thesis
    unfolding buildBudgetInsertsExactTotal_def Let_def m sm lo ex bc
    by (simp add: BUCKETS_def ALLOCATIONS_def map_get_or_def ca [OF ka(1)] ca [OF ka(2)]
        ca [OF ka(3)] ca [OF bx] del: js_div.simps)
qed

lemma build_Fin:
  assumes "0 < x" "toCents (Fin x) = Fin (of_int c)" "c \<le> 2 ^ 53"
  shows "buildBudgetInsertsExactTotal u w (Fin x) =
     map (\<lambda>(b, k). \<lparr>bi_user_id = u, bi_week_start = w, bi_category = b,
                     bi_amount = Fin (of_int k / 100)\<rparr>)
       (zip [''save'', ''wants'', ''emergency'', ''student loans'', ''expenses'']
            (bucket_cents c))"
  using build_cents [OF assms(2) toCents_nonneg [OF assms(1,2)] assms(3)] .

lemma bucket_cents_sum: "sum_list (bucket_cents c) = c"
  by (simp add: bucket_cents_def Let_def)

lemma bucket_cents_int:
  "bucket_cents c =
     [(15 * c + 50) div 100, (15 * c + 50) div 100, (10 * c + 50) div 100,
      (25 * c + 50) div 100,
      c - ((15 * c + 50) div 100 + (15 * c + 50) div 100 + (10 * c + 50) div 100
           + (25 * c + 50) div 100)]"
proof -
  have a: "round_half_up (of_int c * (15 / 100)) = (15 * c + 50) div 100"
    using round_half_up_percent [of c 15] by simp
  have e: "round_half_up (of_int c * (1 / 10)) = (10 * c + 50) div 100"
    using round_half_up_percent [of c 10] by simp
  have s: "round_half_up (of_int c * (25 / 100)) = (25 * c + 50) div 100"
    using round_half_up_percent [of c 25] by simp
  show ?thesis unfolding bucket_cents_def Let_def a e s by simp
qed

lemma residual_nonneg:
  assumes "0 \<le> (c::int)"
  shows "0 \<le> c - ((15 * c + 50) div 100 + (15 * c + 50) div 100 + (10 * c + 50) div 100
                   + (25 * c + 50) div 100)"
proof (cases "6 \<le> c")
  case True
  have "100 * ((15 * c + 50) div 100) \<le> 15 * c + 50"
    and "100 * ((10 * c + 50) div 100) \<le> 10 * c + 50"
    and "100 * ((25 * c + 50) div 100) \<le> 25 * c + 50"
    by (rule div100_le)+
  with True show ?thesis by linarith
next
  case False
  with assms have "c = 0 \<or> c = 1 \<or> c = 2 \<or> c = 3 \<or> c = 4 \<or> c = 5" by linarith
  then show ?thesis by (elim disjE) simp_all
qed

lemma bucket_cents_bounds:
  assumes "0 \<le> c" "k \<in> set (bucket_cents c)"
  shows "0 \<le> k" and "k \<le> c"
proof -
  note b = percent_bounds [OF assms(1)]
  have "0 \<le> k \<and> k \<le> c"
    using assms(2) residual_nonneg [OF assms(1)] b [of 15] b [of 10] b [of 25]
    unfolding bucket_cents_int by auto
  then show "0 \<le> k" and "k \<le> c" by simp_all
qed

lemma js_add_Fin: "\<bar>a + b\<bar> \<le> 2 ^ 60 \<Longrightarrow> js_add (Fin a) (Fin b) = Fin (a + b)"
  by (simp add: js_num_Fin)

lemma js_sum_Fin:
  assumes "\<forall>y \<in> set ys. 0 \<le> y \<and> y \<le> 2 ^ 53" "0 \<le> a" "a + of_nat (length ys) * 2 ^ 53 \<le> 2 ^ 60"
  shows "foldl js_add (Fin a) (map Fin ys) = Fin (a + sum_list ys)"
  using assms
proof (induction ys arbitrary: a)
  case Nil
  then show ?case by simp
next
  case (Cons y ys)
  have y: "0 \<le> y" "y \<le> 2 ^ 53" using Cons.prems(1) by simp_all
  have n: "0 \<le> (of_nat (length ys) :: rat) * 2 ^ 53" by simp
  have "\<bar>a + y\<bar> \<le> 2 ^ 60"
    using y Cons.prems(2,3) n by (simp add: algebra_simps)
  then have st: "js_add (Fin a) (Fin y) = Fin (a + y)" by (rule js_add_Fin)
  have "foldl js_add (Fin (a + y)) (map Fin ys) = Fin (a + y + sum_list ys)"
  proof (rule Cons.IH)
    show "\<forall>y \<in> set ys. 0 \<le> y \<and> y \<le> 2 ^ 53" using Cons.prems(1) by simp
    show "0 \<le> a + y" using y Cons.prems(2) by simp
    show "a + y + of_nat (length ys) * 2 ^ 53 \<le> 2 ^ 60"
      using y Cons.prems(3) by (simp add: algebra_simps)
  qed
  then show ?case by (simp add: st add.assoc del: js_add.simps)
qed

lemma centsToNumber_int:
  "\<bar>k\<bar> \<le> 2 ^ 60 \<Longrightarrow> centsToNumber (Fin (of_int k)) = Fin (of_int k / 100)"
  using js_num_of_int_100 [of k] by (simp add: centsToNumber_def)

lemma toCents_numeral [simp]:
  "toCents (Fin 100) = Fin (of_int 10000)"
  "toCents (Fin 200) = Fin (of_int 20000)"
  "toCents (Fin (3333 / 100)) = Fin (of_int 3333)"
  "toCents (Fin (1 / 100)) = Fin (of_int 1)"
  "toCents (Fin (123456 / 100)) = Fin (of_int 123456)"
  by (simp_all add: toCents_def js_num_def double_limit_def)

text \<open>
  Claim C1, amended. For every income greater than 0 whose amount in cents,
  \<open>toCents income\<close>, is a finite number \<open>c\<close> of at most \<open>2 ^ 53\<close>,
  \<open>buildBudgetInsertsExactTotal\<close> returns exactly five rows, for save, wants, emergency,
  student loans and expenses in this order. The amount of each row is
  \<open>centsToNumber\<close> of a whole number of cents, and these five numbers of cents add up
  to \<open>c\<close>, as integers and when the code adds them as numbers; \<open>c\<close> cents is the income
  rounded to two decimals.
\<close>

theorem allocation_sums_to_income:
  assumes "0 < x" and "toCents (Fin x) = Fin (of_int c)" and "c \<le> 2 ^ 53"
  shows "\<exists>ks. length ks = 5
   \<and> buildBudgetInsertsExactTotal u w (Fin x) =
       map (\<lambda>(b, k). \<lparr>bi_user_id = u, bi_week_start = w, bi_category = b,
                       bi_amount = centsToNumber (Fin (of_int k))\<rparr>)
         (zip [''save'', ''wants'', ''emergency'', ''student loans'', ''expenses''] ks)
   \<and> sum_list ks = c
   \<and> js_sum (map (\<lambda>k. Fin (of_int k)) ks) = toCents (Fin x)
   \<and> clamp2N (Fin x) = centsToNumber (Fin (of_int c))"
proof -
  have c0: "0 \<le> c" using assms(1,2) by (rule toCents_nonneg)
  have cb: "c \<le> 9007199254740992" using assms(3) by simp
  obtain k1 k2 k3 k4 k5 where ks: "bucket_cents c = [k1, k2, k3, k4, k5]"
    by (simp add: bucket_cents_def Let_def)
  have sum: "k1 + k2 + k3 + k4 + k5 = c"
    using bucket_cents_sum [of c] by (simp add: ks)
  have kb: "0 \<le> k \<and> k \<le> c" if "k \<in> set [k1, k2, k3, k4, k5]" for k
    using bucket_cents_bounds [OF c0, of k] that unfolding ks by simp
  have ca: "centsToNumber (Fin (of_int k)) = Fin (of_int k / 100)"
    if "k \<in> set [k1, k2, k3, k4, k5]" for k
    using kb [OF that] cb by (intro centsToNumber_int) simp
  have b: "buildBudgetInsertsExactTotal u w (Fin x) =
     map (\<lambda>(b, k). \<lparr>bi_user_id = u, bi_week_start = w, bi_category = b,
                     bi_amount = centsToNumber (Fin (of_int k))\<rparr>)
       (zip [''save'', ''wants'', ''emergency'', ''student loans'', ''expenses'']
            [k1, k2, k3, k4, k5])"
    unfolding build_Fin [OF assms] ks by (simp add: ca del: js_div.simps)
  have le: "(of_int k :: rat) \<le> 2 ^ 53" "(0 :: rat) \<le> of_int k"
    if "k \<in> set [k1, k2, k3, k4, k5]" for k
  proof -
    from kb [OF that] cb have "k \<le> 2 ^ 53" "0 \<le> k" by simp_all
    then have "(of_int k :: rat) \<le> of_int (2 ^ 53)" by (simp only: of_int_le_iff)
    then show "(of_int k :: rat) \<le> 2 ^ 53" by simp
    show "(0 :: rat) \<le> of_int k" using \<open>0 \<le> k\<close> by simp
  qed
  have amounts: "(of_int k1 + of_int k2 + of_int k3 + of_int k4 + of_int k5 :: rat) = of_int c"
    unfolding sum [symmetric] by simp
  have s2: "js_sum (map (\<lambda>k. Fin (of_int k)) [k1, k2, k3, k4, k5]) = Fin (of_int c)"
  proof -
    have "\<forall>y \<in> set [of_int k1, of_int k2, of_int k3, of_int k4, of_int k5 :: rat].
        0 \<le> y \<and> y \<le> 2 ^ 53"
      using le by auto
    then have "foldl js_add (Fin 0)
         (map Fin [of_int k1, of_int k2, of_int k3, of_int k4, of_int k5])
        = Fin (0 + sum_list [of_int k1, of_int k2, of_int k3, of_int k4, of_int k5])"
      by (rule js_sum_Fin) simp_all
    then show ?thesis
      unfolding js_sum_def amounts [symmetric] by simp
  qed
  have r2: "clamp2N (Fin x) = centsToNumber (Fin (of_int c))"
    by (simp add: clamp2N_def centsToNumber_def assms(2) [unfolded toCents_def]
        del: js_div.simps js_mul.simps)
  have "length [k1, k2, k3, k4, k5] = 5" by simp
  moreover have "sum_list [k1, k2, k3, k4, k5] = c" using sum by simp
  moreover note b s2 [folded assms(2)] r2
  ultimately show ?thesis by (intro exI [of _ "[k1, k2, k3, k4, k5]"] conjI)
qed

theorem allocation_sums_to_income_witness:
  "(0::rat) < 3333 / 100
   \<and> toCents (Fin (3333 / 100)) = Fin (of_int 3333)
   \<and> (3333::int) \<le> 2 ^ 53
   \<and> (\<exists>ks. length ks = 5
     \<and> buildBudgetInsertsExactTotal ''u1'' ''2024-01-05'' (Fin (3333 / 100)) =
         map (\<lambda>(b, k). \<lparr>bi_user_id = ''u1'', bi_week_start = ''2024-01-05'', bi_category = b,
                         bi_amount = centsToNumber (Fin (of_int k))\<rparr>)
           (zip [''save'', ''wants'', ''emergency'', ''student loans'', ''expenses''] ks)
     \<and> sum_list ks = 3333
     \<and> js_sum (map (\<lambda>k. Fin (of_int k)) ks) = toCents (Fin (3333 / 100))
     \<and> clamp2N (Fin (3333 / 100)) = centsToNumber (Fin (of_int 3333)))"
proof -
  have h1: "(0::rat) < 3333 / 100" by simp
  have h2: "toCents (Fin (3333 / 100)) = Fin (of_int 3333)" by (rule toCents_numeral)
  have h3: "(3333::int) \<le> 2 ^ 53" by simp
  from allocation_sums_to_income [OF h1 h2 h3, of "''u1''" "''2024-01-05''"] h1 h2 h3
  show ?thesis by blast
qed

text \<open>
  The scenarios of the specification: 100.00 and 33.33, the smallest income 0.01, and
  1234.56.
\<close>

lemma allocation_scenarios:
  "map bi_amount (buildBudgetInsertsExactTotal u w (Fin 100))
     = [Fin 15, Fin 15, Fin 10, Fin 25, Fin 35]"
  "map bi_amount (buildBudgetInsertsExactTotal u w (Fin (3333 / 100)))
     = [Fin 5, Fin 5, Fin (333 / 100), Fin (833 / 100), Fin (1167 / 100)]"
  "map bi_amount (buildBudgetInsertsExactTotal u w (Fin (1 / 100)))
     = [Fin 0, Fin 0, Fin 0, Fin 0, Fin (1 / 100)]"
  "map bi_amount (buildBudgetInsertsExactTotal u w (Fin (123456 / 100)))
     = [Fin (18518 / 100), Fin (18518 / 100), Fin (12346 / 100), Fin (30864 / 100),
        Fin (43210 / 100)]"
proof -
  have b: "buildBudgetInsertsExactTotal u w (Fin 100) =
       map (\<lambda>(b, k). \<lparr>bi_user_id = u, bi_week_start = w, bi_category = b,
                     bi_amount = Fin (of_int k / 100)\<rparr>)
         (zip [''save'', ''wants'', ''emergency'', ''student loans'', ''expenses'']
            (bucket_cents 10000))"
    "buildBudgetInsertsExactTotal u w (Fin (3333 / 100)) =
       map (\<lambda>(b, k). \<lparr>bi_user_id = u, bi_week_start = w, bi_category = b,
                     bi_amount = Fin (of_int k / 100)\<rparr>)
         (zip [''save'', ''wants'', ''emergency'', ''student loans'', ''expenses'']
            (bucket_cents 3333))"
    "buildBudgetInsertsExactTotal u w (Fin (1 / 100)) =
       map (\<lambda>(b, k). \<lparr>bi_user_id = u, bi_week_start = w, bi_category = b,
                     bi_amount = Fin (of_int k / 100)\<rparr>)
         (zip [''save'', ''wants'', ''emergency'', ''student loans'', ''expenses'']
            (bucket_cents 1))"
    "buildBudgetInsertsExactTotal u w (Fin (123456 / 100)) =
       map (\<lambda>(b, k). \<lparr>bi_user_id = u, bi_week_start = w, bi_category = b,
                     bi_amount = Fin (of_int k / 100)\<rparr>)
         (zip [''save'', ''wants'', ''emergency'', ''student loans'', ''expenses'']
            (bucket_cents 123456))"
    by (rule build_Fin; simp add: toCents_def js_num_def double_limit_def)+
  show "map bi_amount (buildBudgetInsertsExactTotal u w (Fin 100))
     = [Fin 15, Fin 15, Fin 10, Fin 25, Fin 35]"
    unfolding b by (simp add: bucket_cents_int)
  show "map bi_amount (buildBudgetInsertsExactTotal u w (Fin (3333 / 100)))
     = [Fin 5, Fin 5, Fin (333 / 100), Fin (833 / 100), Fin (1167 / 100)]"
    unfolding b by (simp add: bucket_cents_int)
  show "map bi_amount (buildBudgetInsertsExactTotal u w (Fin (1 / 100)))
     = [Fin 0, Fin 0, Fin 0, Fin 0, Fin (1 / 100)]"
    unfolding b by (simp add: bucket_cents_int)
  show "map bi_amount (buildBudgetInsertsExactTotal u w (Fin (123456 / 100)))
     = [Fin (18518 / 100), Fin (18518 / 100), Fin (12346 / 100), Fin (30864 / 100),
        Fin (43210 / 100)]"
    unfolding b by (simp add: bucket_cents_int)
qed

subsection \<open>Overflow of the income\<close>

text \<open>
  When the income times 100 overflows, every product is infinite, the leftover is
  infinity minus infinity, and the residual is NaN.
\<close>

lemma build_overflow:
  assumes "toCents income = PInf"
  shows "buildBudgetInsertsExactTotal u w income =
     [\<lparr>bi_user_id = u, bi_week_start = w, bi_category = ''save'', bi_amount = PInf\<rparr>,
      \<lparr>bi_user_id = u, bi_week_start = w, bi_category = ''wants'', bi_amount = PInf\<rparr>,
      \<lparr>bi_user_id = u, bi_week_start = w, bi_category = ''emergency'', bi_amount = PInf\<rparr>,
      \<lparr>bi_user_id = u, bi_week_start = w, bi_category = ''student loans'', bi_amount = PInf\<rparr>,
      \<lparr>bi_user_id = u, bi_week_start = w, bi_category = ''expenses'', bi_amount = NaN\<rparr>]"
  by (simp add: buildBudgetInsertsExactTotal_def assms ALLOCATIONS_def BUCKETS_def
      js_sum_def js_sub_def map_get_or_def centsToNumber_def js_inf_def Let_def)

lemma toCents_overflow:
  "toCents (Fin (2 ^ 1023)) = PInf" "toCents (Fin (2 ^ 1020)) = PInf" "toCents PInf = PInf"
  by (simp_all add: toCents_def js_num_def double_limit_def js_inf_def)

text \<open>
  Claim C1, as stated, fails for an income so large that its cents overflow: at the
  income \<open>2 ^ 1023\<close>, a finite double greater than 0, the amounts are four infinities and
  NaN, and their sum is NaN, not the income rounded to two decimals.
\<close>

theorem allocation_sum_overflows:
  "(0::rat) < 2 ^ 1023
   \<and> map bi_amount (buildBudgetInsertsExactTotal ''u1'' ''2024-01-05'' (Fin (2 ^ 1023)))
       = [PInf, PInf, PInf, PInf, NaN]
   \<and> js_sum (map bi_amount (buildBudgetInsertsExactTotal ''u1'' ''2024-01-05'' (Fin (2 ^ 1023))))
       = NaN
   \<and> clamp2N (Fin (2 ^ 1023)) = PInf"
proof -
  note b = build_overflow [OF toCents_overflow(1), of "''u1''" "''2024-01-05''"]
  have "clamp2N (Fin (2 ^ 1023)) = PInf"
    by (simp add: clamp2N_def js_num_def double_limit_def js_inf_def)
  then show ?thesis unfolding b by (simp add: js_sum_def)
qed

lemma amount_of_cents: "0 \<le> (k::int) \<Longrightarrow> \<exists>a. Fin (of_int k / 100) = Fin a \<and> 0 \<le> a"
  by (intro exI [of _ "of_int k / 100"]) simp

text \<open>
  Claim C10, amended. For every income greater than 0 whose amount in cents is at most
  \<open>2 ^ 53\<close>, each of the five amounts is a finite number that is not negative; the last
  one is the residual expenses amount.
\<close>

theorem allocation_amounts_nonneg:
  assumes "0 < x" and "toCents (Fin x) = Fin (of_int c)" and "c \<le> 2 ^ 53"
  shows "\<forall>r \<in> set (buildBudgetInsertsExactTotal u w (Fin x)).
           \<exists>a. bi_amount r = Fin a \<and> 0 \<le> a"
proof -
  have c0: "0 \<le> c" using assms(1,2) by (rule toCents_nonneg)
  have "\<exists>a. bi_amount r = Fin a \<and> 0 \<le> a"
    if "r \<in> set (buildBudgetInsertsExactTotal u w (Fin x))" for r
  proof -
    from that obtain b k where "k \<in> set (bucket_cents c)"
      and r: "r = \<lparr>bi_user_id = u, bi_week_start = w, bi_category = b,
                     bi_amount = Fin (of_int k / 100)\<rparr>"
      unfolding build_Fin [OF assms] by (auto dest: set_zip_rightD)
    then have "0 \<le> k" using bucket_cents_bounds(1) [OF c0] by blast
    then show ?thesis unfolding r using amount_of_cents by simp
  qed
  then show ?thesis by blast
qed

theorem allocation_amounts_nonneg_witness:
  "(0::rat) < 1 / 100
   \<and> toCents (Fin (1 / 100)) = Fin (of_int 1)
   \<and> (1::int) \<le> 2 ^ 53
   \<and> list_all (\<lambda>r. \<exists>a. bi_amount r = Fin a \<and> 0 \<le> a)
       (buildBudgetInsertsExactTotal ''u1'' ''2024-01-05'' (Fin (1 / 100)))"
proof -
  have h1: "(0::rat) < 1 / 100" by simp
  have h2: "toCents (Fin (1 / 100)) = Fin (of_int 1)" by (rule toCents_numeral)
  have h3: "(1::int) \<le> 2 ^ 53" by simp
  from allocation_amounts_nonneg [OF h1 h2 h3] show ?thesis
    unfolding list_all_iff using h1 h2 h3 by blast
qed

text \<open>
  Claim C10, as stated, fails for an income so large that its cents overflow: at the
  income \<open>2 ^ 1020\<close> the residual expenses amount is NaN.
\<close>

theorem allocation_residual_overflows:
  "(0::rat) < 2 ^ 1020
   \<and> map bi_category (buildBudgetInsertsExactTotal ''u1'' ''2024-01-05'' (Fin (2 ^ 1020)))
       = [''save'', ''wants'', ''emergency'', ''student loans'', ''expenses'']
   \<and> bi_amount (buildBudgetInsertsExactTotal ''u1'' ''2024-01-05'' (Fin (2 ^ 1020)) ! 4) = NaN
   \<and> \<not> (\<exists>a. bi_amount (buildBudgetInsertsExactTotal ''u1'' ''2024-01-05'' (Fin (2 ^ 1020)) ! 4)
            = Fin a \<and> 0 \<le> a)"
  unfolding build_overflow [OF toCents_overflow(2), of "''u1''" "''2024-01-05''"] by simp


section \<open>Goal progress and tracker classifiers\<close>

text \<open>
  Claim C7. For a goal with current total \<open>c\<close> and target \<open>t\<close>, the percent is 0 when
  \<open>t \<le> 0\<close> and otherwise \<open>c / t * 100\<close> kept between 0 and 100; the remaining amount is
  \<open>t - c\<close>, or 0 when that is negative. Target 500 with current 625 gives percent 100 and
  remaining 0.
\<close>

theorem goal_progress:
  "GoalDonutCard_pct c t =
     (if t \<le> 0 then 0
      else if c / t * 100 < 0 then 0
      else if 100 < c / t * 100 then 100
      else c / t * 100)
   \<and> GoalDonutCard_remaining c t = (if t - c < 0 then 0 else t - c)
   \<and> GoalDonutCard_pct 625 500 = 100
   \<and> GoalDonutCard_remaining 625 500 = 0"
  by (simp add: GoalDonutCard_pct_def GoalDonutCard_remaining_def clamp_def max_def min_def)

lemmas string_eval = toLowerCase_def trim_def is_upper_def is_space_def startsWith_def

text \<open>
  Claim C8 does not hold of the code. The Home page announces, in the comment above its
  classifier, that a label may carry a note, as in \<^verbatim>\<open>student loans (gift)\<close>, and matches
  by prefix. The Savings page writes such labels itself: an adjustment of the student
  loans tracker with the note \<^verbatim>\<open>gift\<close> is stored under the bucket text
  \<^verbatim>\<open>student loans (gift)\<close>. But its own classifier compares the whole label, so on the
  Savings page the row it has just written counts as extra money, while the Home page
  counts the same row as student loans.
\<close>

theorem savings_page_misreads_noted_label:
  "adjustment_bucket student_loans ''gift'' = ''student loans (gift)''
   \<and> trackerForRawBucket (adjustment_bucket student_loans ''gift'') = student_loans
   \<and> trackerForRawBucket_savings_page (adjustment_bucket student_loans ''gift'') = extra_money
   \<and> trackerForRawBucket_savings_page (rawBucketForTracker student_loans) = student_loans"
  by (simp add: adjustment_bucket_def rawBucketForTracker_def trackerForRawBucket_def
      trackerForRawBucket_savings_page_def string_eval)

text \<open>A note on the savings or the emergency tracker is misread in the same way.\<close>

lemma savings_page_misreads_other_notes:
  "trackerForRawBucket (adjustment_bucket savings ''gift'') = savings"
  "trackerForRawBucket_savings_page (adjustment_bucket savings ''gift'') = extra_money"
  "trackerForRawBucket (adjustment_bucket emergency ''gift'') = emergency"
  "trackerForRawBucket_savings_page (adjustment_bucket emergency ''gift'') = extra_money"
  by (simp_all add: adjustment_bucket_def rawBucketForTracker_def trackerForRawBucket_def
      trackerForRawBucket_savings_page_def string_eval)

text \<open>
  The collections library classifies category names, not bucket labels, by the words they
  contain: it reads the label \<^verbatim>\<open>save\<close>, which the Home page reads as savings, as extra
  money, because it looks for the word \<^verbatim>\<open>saving\<close>.
\<close>

lemma library_classifier_differs:
  "trackerForRawBucket ''save'' = savings \<and> bucketForCategory ''save'' = extra_money"
  by (simp add: trackerForRawBucket_def bucketForCategory_def string_eval)

text \<open>
  What the classifiers share: whenever the Savings page gives a tracker other than extra
  money, the Home page gives the same tracker; a label that, lower-cased and trimmed,
  starts with none of \<^verbatim>\<open>save\<close>, \<^verbatim>\<open>student loans\<close>, \<^verbatim>\<open>emergency\<close> is extra money on both
  pages, and a label that contains none of \<^verbatim>\<open>student\<close>, \<^verbatim>\<open>saving\<close>, \<^verbatim>\<open>emerg\<close> is extra
  money in the library.
\<close>

lemma classifiers_agreement:
  "(trackerForRawBucket_savings_page raw \<noteq> extra_money
      \<longrightarrow> trackerForRawBucket raw = trackerForRawBucket_savings_page raw)
   \<and> (\<not> startsWith (trim (toLowerCase raw)) ''save''
      \<and> \<not> startsWith (trim (toLowerCase raw)) ''student loans''
      \<and> \<not> startsWith (trim (toLowerCase raw)) ''emergency''
      \<longrightarrow> trackerForRawBucket raw = extra_money
          \<and> trackerForRawBucket_savings_page raw = extra_money)
   \<and> (\<not> js_includes (toLowerCase raw) ''student''
      \<and> \<not> js_includes (toLowerCase raw) ''saving''
      \<and> \<not> js_includes (toLowerCase raw) ''emerg''
      \<longrightarrow> bucketForCategory raw = extra_money)"
  by (auto simp: trackerForRawBucket_def trackerForRawBucket_savings_page_def
      bucketForCategory_def Let_def startsWith_def)

section \<open>The ledger aggregator\<close>

lemma base_fold:
  "get0 (fold (\<lambda>b m. m(b_category b \<mapsto> get0 m (b_category b) + b_amount b)) bs m) k
     = get0 m k + sum_list (map b_amount (filter (\<lambda>b. b_category b = k) bs))"
  by (induction bs arbitrary: m) (simp_all add: get0_def)

lemma baseBudgetByBucket_get0:
  "get0 (baseBudgetByBucket bs) k = sum_list (map b_amount (filter (\<lambda>b. b_category b = k) bs))"
  unfolding baseBudgetByBucket_def base_fold by (simp add: get0_def)

lemma delta_fold:
  "get0 (fold (\<lambda>tr m.
        let amt = tr_amount tr;
            m' = m(from_bucket tr \<mapsto> get0 m (from_bucket tr) - amt)
        in m'(to_bucket tr \<mapsto> get0 m' (to_bucket tr) + amt)) trs m) k
     = get0 m k + sum_list (map tr_amount (filter (\<lambda>tr. to_bucket tr = k) trs))
         - sum_list (map tr_amount (filter (\<lambda>tr. from_bucket tr = k) trs))"
  by (induction trs arbitrary: m) (simp_all add: get0_def Let_def)

lemma deltaByBucket_get0:
  "get0 (deltaByBucket trs) k
     = sum_list (map tr_amount (filter (\<lambda>tr. to_bucket tr = k) trs))
         - sum_list (map tr_amount (filter (\<lambda>tr. from_bucket tr = k) trs))"
  unfolding deltaByBucket_def delta_fold by (simp add: get0_def)

lemma spent_fold:
  assumes "k \<noteq> []"
  shows "get0 (fold (\<lambda>t m.
        if 0 \<le> tx_amount t then m
        else case tx_bucket md t of
               None \<Rightarrow> m
             | Some bucket \<Rightarrow>
                 if bucket = [] then m
                 else m(bucket \<mapsto> get0 m bucket + \<bar>tx_amount t\<bar>)) txs m) k
     = get0 m k + sum_list (map (\<lambda>t. \<bar>tx_amount t\<bar>)
          (filter (\<lambda>t. tx_amount t < 0 \<and> tx_bucket md t = Some k) txs))"
  using assms by (induction txs arbitrary: m) (auto simp: get0_def split: option.splits)

lemma spentByBucket_get0:
  "k \<noteq> [] \<Longrightarrow> get0 (spentByBucket txs md) k
     = sum_list (map (\<lambda>t. \<bar>tx_amount t\<bar>)
          (filter (\<lambda>t. tx_amount t < 0 \<and> tx_bucket md t = Some k) txs))"
  unfolding spentByBucket_def by (simp add: spent_fold) (simp add: get0_def)

lemma BUCKETS_eq: "BUCKETS = [''save'', ''wants'', ''emergency'', ''student loans'', ''expenses'']"
  by (simp add: BUCKETS_def ALLOCATIONS_def)




section \<open>Whole cents\<close>

lemma is_cents_iff: "is_cents a \<longleftrightarrow> (\<exists>k::int. a = of_int k / 100)"
proof
  assume "is_cents a"
  then have "a = of_int (round_half_up (a * 100)) / 100"
    by (simp add: is_cents_def clamp2_def)
  then show "\<exists>k::int. a = of_int k / 100" ..
next
  assume "\<exists>k::int. a = of_int k / 100"
  then obtain k :: int where "a = of_int k / 100" ..
  then show "is_cents a" by (simp add: is_cents_def clamp2_def)
qed


lemma is_cents_0 [simp]: "is_cents 0"
  unfolding is_cents_iff by (rule exI [of _ 0]) simp






lemma clamp2_cents: "is_cents a \<Longrightarrow> clamp2 a = a"
  by (simp add: is_cents_def)














section \<open>Spending\<close>

lemmas category_eval = splitStoredCategory_def TX_BUCKET_DELIM_def tx_bucket_def BUCKETS_eq
  trim_def is_space_def startsWith_def mapDict_def





section \<open>What a mutation that ends well has done\<close>


lemma collectBucket_Done:
  assumes "collectBucket e st b amount = (Done, reqs, st')"
  obtains uid ws where
    "0 < amount" "session e" "user e = Some uid" "weekStart st = Some ws"
    "reqs = [Insert_bucket_collection uid ws b (clamp2 amount)]"
    "st' = st\<lparr>collectedSet := insert b (collectedSet st)\<rparr>"
  using assms unfolding collectBucket_def Let_def
  by (auto split: option.splits if_splits)

lemma undoCollect_Done:
  assumes "undoCollect e st b = (Done, reqs, st')"
  obtains uid ws where
    "session e" "user e = Some uid" "weekStart st = Some ws"
    "reqs = [Delete_bucket_collections uid ws b]"
    "st' = st\<lparr>collectedSet := collectedSet st - {b}\<rparr>"
  using assms unfolding undoCollect_def Let_def
  by (auto split: option.splits if_splits)

lemma find_category: "find (\<lambda>r. r_category r = b) xs = Some r \<Longrightarrow> r_category r = b"
  by (induction xs) (auto split: if_splits)

lemma press_collect_Done:
  assumes "press_collect e st b = (Done, reqs, st')"
  obtains r where
    "find (\<lambda>r. r_category r = b) (rows_of st) = Some r"
    "b \<notin> collectedSet st" "0 < r_variance r"
    "collectBucket e st b (r_variance r) = (Done, reqs, st')"
proof -
  from assms obtain r where r: "find (\<lambda>r. r_category r = b) (rows_of st) = Some r"
    unfolding press_collect_def by (auto split: option.splits)
  then have c: "r_category r = b" by (rule find_category)
  from assms r c have "b \<notin> collectedSet st" "0 < r_variance r"
    "collectBucket e st b (r_variance r) = (Done, reqs, st')"
    unfolding press_collect_def collect_control_def Let_def
    by (auto split: if_splits)
  with r that show ?thesis by blast
qed

lemma press_undo_Done:
  assumes "press_undo e st b = (Done, reqs, st')"
  obtains r where
    "find (\<lambda>r. r_category r = b) (rows_of st) = Some r"
    "b \<in> collectedSet st"
    "undoCollect e st b = (Done, reqs, st')"
proof -
  from assms obtain r where r: "find (\<lambda>r. r_category r = b) (rows_of st) = Some r"
    unfolding press_undo_def by (auto split: option.splits)
  then have c: "r_category r = b" by (rule find_category)
  from assms r c have "b \<in> collectedSet st" "undoCollect e st b = (Done, reqs, st')"
    unfolding press_undo_def collect_control_def Let_def
    by (auto split: if_splits)
  with r that show ?thesis by blast
qed






section \<open>The example week\<close>

lemmas number_eval = Number_of_def parse_unsigned_def parse_exponent_def parse_digits_def
  pow10_def read_value_def js_num_def double_limit_def is_digit_def digits_value_def trim_def
  is_space_def

lemma Number_of_200: "Number_of ''200'' = Fin 200"
  by (simp add: number_eval)

lemma build_200:
  "buildBudgetInsertsExactTotal u w (Fin 200) =
     map (\<lambda>(b, k). \<lparr>bi_user_id = u, bi_week_start = w, bi_category = b,
                     bi_amount = Fin (of_int k / 100)\<rparr>)
       (zip [''save'', ''wants'', ''emergency'', ''student loans'', ''expenses'']
            (bucket_cents 20000))"
  by (rule build_Fin) simp_all

lemma clamp2N_200: "clamp2N (Fin 200) = Fin 200"
  by (simp add: clamp2N_def js_num_def double_limit_def)

lemma example_week_value:
  "addNewWeekFromIncome Number_of example_env example_form =
     (Done,
      [Upsert_weekly_income ''u1'' ''2024-01-05'' (Fin 200),
       Delete_budgets ''u1'' ''2024-01-05'',
       Delete_bucket_transfers ''u1'' ''2024-01-05'',
       Insert_budgets (buildBudgetInsertsExactTotal ''u1'' ''2024-01-05'' (Fin 200))],
      \<lparr>weekStart = Some ''2024-01-05'',
       budgets =
         [\<lparr>b_week_start = ''2024-01-05'', b_category = ''save'', b_amount = 30\<rparr>,
          \<lparr>b_week_start = ''2024-01-05'', b_category = ''wants'', b_amount = 30\<rparr>,
          \<lparr>b_week_start = ''2024-01-05'', b_category = ''emergency'', b_amount = 20\<rparr>,
          \<lparr>b_week_start = ''2024-01-05'', b_category = ''student loans'', b_amount = 50\<rparr>,
          \<lparr>b_week_start = ''2024-01-05'', b_category = ''expenses'', b_amount = 70\<rparr>],
       transactions = example_transactions, categoryMap = [], transfers = [],
       collectedSet = {}, coverSource = Map.empty, coverAmount = Map.empty,
       incomeInput = [], newWeekStartDate = ''2024-01-05'', showAddWeek = False\<rparr>)"
  by (simp add: addNewWeekFromIncome_def example_form_def initial_dashboard_def Number_of_200
      rebuildBudgetsForWeek_def example_env_def clamp2N_200 trim_def is_space_def
      loadWeekAll_rebuilt_def build_200 bucket_cents_int budget_of_insert_def Let_def)

section \<open>Budgets after transfers\<close>




lemma example_week_eq:
  "example_week =
      \<lparr>weekStart = Some ''2024-01-05'',
       budgets =
         [\<lparr>b_week_start = ''2024-01-05'', b_category = ''save'', b_amount = 30\<rparr>,
          \<lparr>b_week_start = ''2024-01-05'', b_category = ''wants'', b_amount = 30\<rparr>,
          \<lparr>b_week_start = ''2024-01-05'', b_category = ''emergency'', b_amount = 20\<rparr>,
          \<lparr>b_week_start = ''2024-01-05'', b_category = ''student loans'', b_amount = 50\<rparr>,
          \<lparr>b_week_start = ''2024-01-05'', b_category = ''expenses'', b_amount = 70\<rparr>],
       transactions = example_transactions, categoryMap = [], transfers = [],
       collectedSet = {}, coverSource = Map.empty, coverAmount = Map.empty,
       incomeInput = [], newWeekStartDate = ''2024-01-05'', showAddWeek = False\<rparr>"
  by (simp add: example_week_def example_week_value)

lemma example_txs_bucket:
  "map (tx_bucket md) example_transactions
     = [Some ''expenses'', Some ''wants'', Some ''save'', md ''misc'']"
  by (simp add: example_transactions_def category_eval)

lemma example_rows:
  "rows_of example_week_chosen =
     [\<lparr>r_category = ''save'', r_budgeted = 30, r_spent = 0, r_variance = 30\<rparr>,
      \<lparr>r_category = ''wants'', r_budgeted = 30, r_spent = 10, r_variance = 20\<rparr>,
      \<lparr>r_category = ''emergency'', r_budgeted = 20, r_spent = 0, r_variance = 20\<rparr>,
      \<lparr>r_category = ''student loans'', r_budgeted = 50, r_spent = 0, r_variance = 50\<rparr>,
      \<lparr>r_category = ''expenses'', r_budgeted = 70, r_spent = 85, r_variance = - 15\<rparr>]"
  using example_txs_bucket [of "mapDict []"]
  by (simp add: rows_of_def rows_def example_week_chosen_def example_week_eq BUCKETS_eq
      baseBudgetByBucket_get0 deltaByBucket_get0 spentByBucket_get0 Let_def
      example_transactions_def clamp2_def round_half_up_def mapDict_def)

lemma example_available:
  "availableFromBucket example_week_chosen ''wants'' = 20"
  by (simp add: availableFromBucket_def example_rows)
    (simp add: example_week_chosen_def example_week_eq clamp2_def round_half_up_def)

lemma example_cover_fields:
  "cover_from example_week_chosen ''expenses'' = ''wants''"
  "cover_wantStr example_week_chosen ''expenses'' = []"
  "weekStart example_week_chosen = Some ''2024-01-05''"
  "budgets example_week_chosen \<noteq> []"
  by (simp_all add: cover_from_def cover_wantStr_def example_week_chosen_def example_week_eq
      trim_def is_space_def)

lemma example_cover_value:
  "coverOverspend Number_of example_env example_week_chosen ''expenses'' =
     (Done,
      [Insert_bucket_transfer ''u1''
         \<lparr>tr_week_start = ''2024-01-05'', from_bucket = ''wants'', to_bucket = ''expenses'',
          tr_amount = 15\<rparr>],
      example_week_chosen
        \<lparr>coverAmount := [''expenses'' \<mapsto> []],
         transfers := [\<lparr>tr_week_start = ''2024-01-05'', from_bucket = ''wants'',
                        to_bucket = ''expenses'', tr_amount = 15\<rparr>]\<rparr>)"
  unfolding coverOverspend_def
  by (simp add: example_rows example_cover_fields example_available example_env_def
      loadWeekAll_after_transfer_def clamp2_def round_half_up_def)
    (simp add: example_week_chosen_def example_week_eq Let_def)

lemma example_week_covered_eq:
  "example_week_covered =
     example_week_chosen
        \<lparr>coverAmount := [''expenses'' \<mapsto> []],
         transfers := [\<lparr>tr_week_start = ''2024-01-05'', from_bucket = ''wants'',
                        to_bucket = ''expenses'', tr_amount = 15\<rparr>]\<rparr>"
  by (simp add: example_week_covered_def example_cover_value)


text \<open>Scenario 3: after the cover, wants is 5 under budget and expenses is even.\<close>

lemma example_rows_covered:
  "rows_of example_week_covered =
     [\<lparr>r_category = ''save'', r_budgeted = 30, r_spent = 0, r_variance = 30\<rparr>,
      \<lparr>r_category = ''wants'', r_budgeted = 15, r_spent = 10, r_variance = 5\<rparr>,
      \<lparr>r_category = ''emergency'', r_budgeted = 20, r_spent = 0, r_variance = 20\<rparr>,
      \<lparr>r_category = ''student loans'', r_budgeted = 50, r_spent = 0, r_variance = 50\<rparr>,
      \<lparr>r_category = ''expenses'', r_budgeted = 85, r_spent = 85, r_variance = 0\<rparr>]"
  using example_txs_bucket [of "mapDict []"]
  by (simp add: rows_of_def rows_def example_week_covered_eq example_week_chosen_def
      example_week_eq BUCKETS_eq
      baseBudgetByBucket_get0 deltaByBucket_get0 spentByBucket_get0 Let_def
      example_transactions_def clamp2_def round_half_up_def mapDict_def)


section \<open>Cover overspend\<close>






lemma clamp2_0 [simp]: "clamp2 0 = 0"
  using clamp2_cents [OF is_cents_0] .






lemma rows_of_coverAmount [simp]:
  "rows_of (st\<lparr>coverAmount := x\<rparr>) = rows_of st"
  "availableFromBucket (st\<lparr>coverAmount := x\<rparr>) b = availableFromBucket st b"
  "cover_from (st\<lparr>coverAmount := x\<rparr>) t = cover_from st t"
  by (simp_all add: rows_of_def availableFromBucket_def cover_from_def split: option.splits)

lemma Number_of_examples:
  "Number_of ''12.50'' = Fin (25 / 2)"
  "Number_of ''0.125'' = Fin (1 / 8)"
  "Number_of ''Infinity'' = PInf"
  by (simp_all add: number_eval)

text \<open>Other texts that a user can type into a decimal field.\<close>

lemma Number_of_more:
  "Number_of '' 1e3 '' = Fin 1000"
  "Number_of ''2.5e-1'' = Fin (1 / 4)"
  "Number_of ''1e999'' = PInf"
  "Number_of ''-1e999'' = NInf"
  "Number_of ''1e-999'' = Fin 0"
  "Number_of ''0x1F'' = Fin 31"
  "Number_of ''-0x1F'' = NaN"
  "Number_of ''12abc'' = NaN"
  "Number_of ''.'' = NaN"
  "Number_of ''-Infinity'' = NInf"
  "Number_of [] = Fin 0"
  by (simp_all add: number_eval parse_radix_def radix_digit_def)






section \<open>Collect and undo\<close>















lemma example_press_collect:
  "press_collect example_env example_week_chosen ''wants'' =
     (Done, [Insert_bucket_collection ''u1'' ''2024-01-05'' ''wants'' 20],
      example_week_chosen\<lparr>collectedSet := {''wants''}\<rparr>)"
  unfolding press_collect_def
  by (simp add: example_rows collect_control_def collectBucket_def example_env_def
      example_cover_fields clamp2_def round_half_up_def)
    (simp add: example_week_chosen_def example_week_eq Let_def)

lemma example_press_undo:
  "press_undo example_env (example_week_chosen\<lparr>collectedSet := {''wants''}\<rparr>) ''wants'' =
     (Done, [Delete_bucket_collections ''u1'' ''2024-01-05'' ''wants''], example_week_chosen)"
proof -
  have r: "rows_of (example_week_chosen\<lparr>collectedSet := {''wants''}\<rparr>) = rows_of example_week_chosen"
    by (simp add: rows_of_def)
  show ?thesis
    unfolding press_undo_def r
    by (simp add: example_rows collect_control_def undoCollect_def example_env_def
        example_cover_fields)
      (simp add: example_week_chosen_def example_week_eq Let_def)
qed


text \<open>
  Claim C4. A press on Collect that does its work, followed by a press on Undo that does
  its work, gives back the state before the collection: the bucket is in the collected
  set exactly if it was before (it was not), and the amount available from the bucket is
  what it was. In between the bucket is collected and nothing is available from it.
\<close>

theorem collect_undo_roundtrip:
  assumes "press_collect e st b = (Done, reqs, st1)"
    and "press_undo e' st1 b = (Done, reqs', st2)"
  shows "st2 = st
    \<and> (b \<in> collectedSet st2) = (b \<in> collectedSet st)
    \<and> collectedSet st2 = collectedSet st
    \<and> availableFromBucket st2 b = availableFromBucket st b
    \<and> b \<in> collectedSet st1 \<and> availableFromBucket st1 b = 0"
proof -
  from assms(1) obtain r :: Row where nc: "b \<notin> collectedSet st"
    and cb: "collectBucket e st b (r_variance r) = (Done, reqs, st1)"
    by (rule press_collect_Done)
  from cb have st1: "st1 = st\<lparr>collectedSet := insert b (collectedSet st)\<rparr>"
    by (rule collectBucket_Done)
  from assms(2) have "undoCollect e' st1 b = (Done, reqs', st2)"
    by (rule press_undo_Done)
  then have st2: "st2 = st1\<lparr>collectedSet := collectedSet st1 - {b}\<rparr>"
    by (rule undoCollect_Done)
  have "st2 = st" unfolding st2 st1 using nc by simp
  moreover have "b \<in> collectedSet st1" unfolding st1 by simp
  moreover from this have "availableFromBucket st1 b = 0"
    by (simp add: availableFromBucket_def split: option.splits)
  ultimately show ?thesis by simp
qed

theorem collect_undo_roundtrip_witness:
  "press_collect example_env example_week_chosen ''wants'' =
     (Done, [Insert_bucket_collection ''u1'' ''2024-01-05'' ''wants'' 20],
      example_week_chosen\<lparr>collectedSet := {''wants''}\<rparr>)
   \<and> press_undo example_env (example_week_chosen\<lparr>collectedSet := {''wants''}\<rparr>) ''wants'' =
     (Done, [Delete_bucket_collections ''u1'' ''2024-01-05'' ''wants''], example_week_chosen)
   \<and> availableFromBucket example_week_chosen ''wants'' = 20
   \<and> availableFromBucket (example_week_chosen\<lparr>collectedSet := {''wants''}\<rparr>) ''wants'' = 0
   \<and> ''wants'' \<in> collectedSet (example_week_chosen\<lparr>collectedSet := {''wants''}\<rparr>)
   \<and> ''wants'' \<notin> collectedSet example_week_chosen"
  using collect_undo_roundtrip [OF example_press_collect example_press_undo]
    example_press_collect example_press_undo example_available
  by (simp add: example_week_chosen_def example_week_eq)

subsection \<open>The collections library\<close>

lemma collectLeftover_inserted:
  assumes "collectLeftover e tbl w c amount = (Inr (Some (i, row)), tbl')"
  obtains uid where "0 < amount" "i = length tbl" "tbl' = tbl @ [row]"
    "lib_user e = Some uid"
    "row = \<lparr>col_user_id = uid, col_week_id = w, col_category = c,
            col_bucket = bucketForCategory c, col_amount = amount, col_undone_at = None\<rparr>"
  using assms unfolding collectLeftover_def Let_def
  by (auto split: if_splits option.splits)

lemma active_rows_snoc:
  "active_rows (tbl @ [x]) u w c =
     active_rows tbl u w c
       @ (if col_user_id x = u \<and> col_week_id x = w \<and> col_category x = c
             \<and> col_undone_at x = None
          then [length tbl] else [])"
proof -
  have "filter (\<lambda>i. col_user_id ((tbl @ [x]) ! i) = u \<and> col_week_id ((tbl @ [x]) ! i) = w
                 \<and> col_category ((tbl @ [x]) ! i) = c \<and> col_undone_at ((tbl @ [x]) ! i) = None)
          [0 ..< length tbl]
      = filter (\<lambda>i. col_user_id (tbl ! i) = u \<and> col_week_id (tbl ! i) = w
                 \<and> col_category (tbl ! i) = c \<and> col_undone_at (tbl ! i) = None)
          [0 ..< length tbl]"
    by (rule filter_cong) (simp_all add: nth_append)
  then show ?thesis by (simp add: active_rows_def)
qed

text \<open>
  The library's round trip: a collection followed by an undo stamps the row just inserted
  and leaves the active rows of every user, week and category as they were.
\<close>

lemma lib_collect_undo_roundtrip:
  assumes c: "collectLeftover e tbl w c amount = (Inr (Some (i, row)), tbl1)"
    and u: "undoCollect_lib e' now tbl1 w c = (Inr res, tbl2)"
    and same: "lib_user e' = lib_user e"
  shows "res = Some (i, amount, now)"
    and "tbl2 = tbl @ [row\<lparr>col_undone_at := Some now\<rparr>]"
    and "active_rows tbl2 u' w' c' = active_rows tbl u' w' c'"
proof -
  from c obtain uid where i: "i = length tbl" and tbl1: "tbl1 = tbl @ [row]"
    and uid: "lib_user e = Some uid"
    and r: "row = \<lparr>col_user_id = uid, col_week_id = w, col_category = c,
            col_bucket = bucketForCategory c, col_amount = amount, col_undone_at = None\<rparr>"
    by (rule collectLeftover_inserted)
  have row: "col_user_id row = uid" "col_week_id row = w" "col_category row = c"
    "col_undone_at row = None" "col_amount row = amount"
    using r by simp_all
  have act: "rev (active_rows tbl1 uid w c) = length tbl # rev (active_rows tbl uid w c)"
    unfolding tbl1 active_rows_snoc using row by simp
  have nth: "tbl1 ! length tbl = row" unfolding tbl1 by simp
  from u have res: "res = Some (length tbl, amount, now)"
    and tbl2: "tbl2 = tbl1[length tbl := row\<lparr>col_undone_at := Some now\<rparr>]"
    unfolding undoCollect_lib_def same uid
    by (auto simp: act nth row split: if_splits)
  show "res = Some (i, amount, now)" using res i by simp
  show t2: "tbl2 = tbl @ [row\<lparr>col_undone_at := Some now\<rparr>]"
    unfolding tbl2 tbl1 by simp
  show "active_rows tbl2 u' w' c' = active_rows tbl u' w' c'"
    unfolding t2 active_rows_snoc by simp
qed

text \<open>
  The button: while its flag says collected a press never inserts a row, and a press with
  nothing remaining does nothing.
\<close>

lemma CollectButton_collected:
  "length (fst (CollectButton_onClick e now (tbl, True) w c remaining)) = length tbl"
  unfolding CollectButton_onClick_def undoCollect_lib_def Let_def
  by (auto split: option.splits list.splits prod.splits sum.splits if_splits)

lemma CollectButton_disabled:
  "remaining \<le> 0 \<Longrightarrow> CollectButton_onClick e now (tbl, False) w c remaining = (tbl, False)"
  by (simp add: CollectButton_onClick_def)




section \<open>Adding a week\<close>

lemma add_week_guard:
  "(incomeInput st = [] \<or> isNaN (num (incomeInput st)) \<or> js_le_zero (num (incomeInput st)))
     = (incomeInput st = [] \<or> num (incomeInput st) = NaN \<or> num (incomeInput st) = NInf
        \<or> (\<exists>a. num (incomeInput st) = Fin a \<and> a \<le> 0))"
  by (cases "num (incomeInput st)") simp_all

text \<open>An empty text, NaN, minus infinity and a finite income that is not positive are
  turned down with no request to the store and no change of state.\<close>

lemma add_week_rejected:
  assumes "incomeInput st = [] \<or> num (incomeInput st) = NaN \<or> num (incomeInput st) = NInf
        \<or> (\<exists>a. num (incomeInput st) = Fin a \<and> a \<le> 0)"
  shows "addNewWeekFromIncome num e st = (Failed ''Income must be a number greater than 0.'', [], st)"
  using assms unfolding add_week_guard [symmetric]
  by (simp add: addNewWeekFromIncome_def Let_def)

lemma build_infinity:
  "buildBudgetInsertsExactTotal u w PInf =
     [\<lparr>bi_user_id = u, bi_week_start = w, bi_category = ''save'', bi_amount = PInf\<rparr>,
      \<lparr>bi_user_id = u, bi_week_start = w, bi_category = ''wants'', bi_amount = PInf\<rparr>,
      \<lparr>bi_user_id = u, bi_week_start = w, bi_category = ''emergency'', bi_amount = PInf\<rparr>,
      \<lparr>bi_user_id = u, bi_week_start = w, bi_category = ''student loans'', bi_amount = PInf\<rparr>,
      \<lparr>bi_user_id = u, bi_week_start = w, bi_category = ''expenses'', bi_amount = NaN\<rparr>]"
  by (simp add: buildBudgetInsertsExactTotal_def ALLOCATIONS_def BUCKETS_def toCents_def
      js_sum_def js_sub_def map_get_or_def centsToNumber_def js_inf_def Let_def)

text \<open>
  Claim C9 does not hold of the code for an income of plus infinity. The text
  \<^verbatim>\<open>Infinity\<close> reads as a number that is not NaN and not at most 0, so the guard of
  \<^verbatim>\<open>addNewWeekFromIncome\<close> lets it pass: the weekly income is upserted with an infinite
  amount, the budgets and transfers of the week are deleted, and five budget rows are
  inserted whose amounts are infinite or NaN.
\<close>

theorem add_week_infinity_not_rejected:
  "Number_of (incomeInput example_form_infinity) = PInf
   \<and> fst (addNewWeekFromIncome Number_of example_env example_form_infinity) = Done
   \<and> fst (snd (addNewWeekFromIncome Number_of example_env example_form_infinity)) =
       [Upsert_weekly_income ''u1'' ''2024-01-05'' PInf,
        Delete_budgets ''u1'' ''2024-01-05'',
        Delete_bucket_transfers ''u1'' ''2024-01-05'',
        Insert_budgets (buildBudgetInsertsExactTotal ''u1'' ''2024-01-05'' PInf)]
   \<and> map bi_amount (buildBudgetInsertsExactTotal ''u1'' ''2024-01-05'' PInf)
       = [PInf, PInf, PInf, PInf, NaN]"
  by (simp add: addNewWeekFromIncome_def example_form_infinity_def initial_dashboard_def
      Number_of_examples rebuildBudgetsForWeek_def example_env_def clamp2N_def js_inf_def
      trim_def is_space_def Let_def build_infinity)

end
